theory Spec2Isabelle
  imports Complex_Main "HOL-Library.Word" "HOL-Library.AList" "HOL-Library.Sublist"
begin

section \<open>Python values and exceptions\<close>

text \<open>
  The download script \<^verbatim>\<open>S0A_download_ASDF_MPI.py\<close> and the command line driver
  \<^verbatim>\<open>noisepy/seis/main.py\<close> are embedded function by function. Python integers are
  \<open>int\<close>, strings are \<open>string\<close>, and arithmetic on Python floats is exact arithmetic
  on \<open>real\<close> (rounding is left out). Every
  \<^verbatim>\<open>raise\<close>, failed \<^verbatim>\<open>assert\<close> and \<^verbatim>\<open>sys.exit()\<close> of the source is a value of
  \<open>py_error\<close>, returned as \<open>Inl\<close>. \<open>BroadcastNeverArrives\<close> is not an exception:
  it marks a worker of rank above 0 that waits in \<^verbatim>\<open>comm.bcast\<close> for a coordinator
  that has raised before broadcasting.
\<close>

datatype py_error =
    IOError
  | ValueError_memory real real
  | ValueError_no_chunk
  | ValueError_range_step
  | ZeroDivisionError
  | UnboundLocalError
  | AssertionError
  | KeyError string
  | SyntaxError
  | SystemExit
  | ConfigError
  | RemoteError
  | OSError
  | IndexError
  | ValueError_date
  | UnicodeDecodeError
  | BroadcastNeverArrives

section \<open>Python literals: \<^verbatim>\<open>str\<close> of a dictionary and \<^verbatim>\<open>eval\<close> of its text\<close>

text \<open>
  The download script saves its parameters with \<^verbatim>\<open>fout.write(str(prepro_para))\<close> and
  \<^verbatim>\<open>initialize_fft_params\<close> reads them back with \<^verbatim>\<open>eval(open(dfile).read())\<close>.
  The dictionary holds integers, floats and strings under string keys. A float is kept as
  the decimal numeral that \<^verbatim>\<open>repr\<close> prints for it (sign, integer part, one or more
  fractional digits, as for every float between \<open>10\<^sup>-\<^sup>4\<close> and \<open>10\<^sup>1\<^sup>6\<close>), which
  identifies the float; its value as a real number is \<open>dec_val\<close>. A character is a code
  point below 256.
\<close>

abbreviation bslash :: char where "bslash \<equiv> CHR 0x5C"
abbreviation squote :: char where "squote \<equiv> CHR 0x27"
abbreviation dquote :: char where "dquote \<equiv> CHR 0x22"
abbreviation newline :: char where "newline \<equiv> CHR 0x0A"
abbreviation tab :: char where "tab \<equiv> CHR 0x09"
abbreviation creturn :: char where "creturn \<equiv> CHR 0x0D"

datatype digit = D0 | D1 | D2 | D3 | D4 | D5 | D6 | D7 | D8 | D9

datatype decimal = Decimal bool nat digit "digit list"

datatype pyval = PyInt int | PyFloat decimal | PyStr string

fun digit_nat :: "digit \<Rightarrow> nat" where
  "digit_nat D0 = 0" | "digit_nat D1 = 1" | "digit_nat D2 = 2" | "digit_nat D3 = 3"
| "digit_nat D4 = 4" | "digit_nat D5 = 5" | "digit_nat D6 = 6" | "digit_nat D7 = 7"
| "digit_nat D8 = 8" | "digit_nat D9 = 9"

fun frac_val :: "digit list \<Rightarrow> real" where
  "frac_val [] = 0"
| "frac_val (d # ds) = (real (digit_nat d) + frac_val ds) / 10"

fun dec_val :: "decimal \<Rightarrow> real" where
  "dec_val (Decimal neg w d ds) =
     (if neg then - (real w + frac_val (d # ds)) else real w + frac_val (d # ds))"


text \<open>
  Decimal digits and \<^verbatim>\<open>str\<close> of a non-negative integer.
\<close>

definition digit_char :: "nat \<Rightarrow> char" where
  "digit_char n = char_of (48 + n mod 10)"

definition is_digit :: "char \<Rightarrow> bool" where
  "is_digit c = (48 \<le> (of_char c :: nat) \<and> (of_char c :: nat) \<le> 57)"

definition digit_val :: "char \<Rightarrow> nat" where
  "digit_val c = of_char c - 48"

function show_nat :: "nat \<Rightarrow> string" where
  "show_nat n = (if n < 10 then [digit_char n] else show_nat (n div 10) @ [digit_char n])"
  by pat_completeness auto
termination
  by (relation "measure id") auto

declare show_nat.simps [simp del]

definition read_nat :: "string \<Rightarrow> nat" where
  "read_nat s = foldl (\<lambda>acc c. 10 * acc + digit_val c) 0 s"

definition nat_digit :: "nat \<Rightarrow> digit" where
  "nat_digit n = [D0, D1, D2, D3, D4, D5, D6, D7, D8, D9] ! (n mod 10)"

text \<open>
  \<^verbatim>\<open>repr\<close> of a string: single quotes unless the string has a single quote and no
  double quote; the quote and the backslash are escaped, tab, newline and carriage return
  are written \<^verbatim>\<open>\t\<close>, \<^verbatim>\<open>\n\<close>, \<^verbatim>\<open>\r\<close>, and every other character that is not
  printable is written \<^verbatim>\<open>\xhh\<close>.
\<close>

definition hex_char :: "nat \<Rightarrow> char" where
  "hex_char k = (if k mod 16 < 10 then char_of (48 + k mod 16) else char_of (87 + k mod 16))"

definition hex_val :: "char \<Rightarrow> nat option" where
  "hex_val c =
     (let n = (of_char c :: nat)
      in if 48 \<le> n \<and> n \<le> 57 then Some (n - 48)
         else if 97 \<le> n \<and> n \<le> 102 then Some (n - 87)
         else if 65 \<le> n \<and> n \<le> 70 then Some (n - 55)
         else None)"

definition printable :: "char \<Rightarrow> bool" where
  "printable c =
     (let n = (of_char c :: nat) in (32 \<le> n \<and> n < 127) \<or> (161 \<le> n \<and> n \<noteq> 173))"

definition repr_char :: "char \<Rightarrow> char \<Rightarrow> string" where
  "repr_char q c =
     (if c = q \<or> c = bslash then [bslash, c]
      else if c = tab then [bslash, CHR ''t'']
      else if c = newline then [bslash, CHR ''n'']
      else if c = creturn then [bslash, CHR ''r'']
      else if \<not> printable c
        then [bslash, CHR ''x'', hex_char (of_char c div 16), hex_char (of_char c)]
      else [c])"

definition repr_quote :: "string \<Rightarrow> char" where
  "repr_quote s = (if squote \<in> set s \<and> dquote \<notin> set s then dquote else squote)"

definition repr_str :: "string \<Rightarrow> string" where
  "repr_str s = (let q = repr_quote s in q # concat (map (repr_char q) s) @ [q])"

definition repr_int :: "int \<Rightarrow> string" where
  "repr_int i = (if i < 0 then CHR ''-'' # show_nat (nat (- i)) else show_nat (nat i))"

fun repr_decimal :: "decimal \<Rightarrow> string" where
  "repr_decimal (Decimal neg w d ds) =
     (if neg then ''-'' else []) @ show_nat w @ ''.'' @ map (\<lambda>x. digit_char (digit_nat x)) (d # ds)"

fun repr :: "pyval \<Rightarrow> string" where
  "repr (PyInt i) = repr_int i"
| "repr (PyFloat f) = repr_decimal f"
| "repr (PyStr s) = repr_str s"

definition repr_item :: "string \<times> pyval \<Rightarrow> string" where
  "repr_item kv = repr_str (fst kv) @ '': '' @ repr (snd kv)"

fun repr_items :: "(string \<times> pyval) list \<Rightarrow> string" where
  "repr_items [] = []"
| "repr_items [kv] = repr_item kv"
| "repr_items (kv # rest) = repr_item kv @ '', '' @ repr_items rest"

definition py_str :: "(string \<times> pyval) list \<Rightarrow> string" where
  "py_str d = ''{'' @ repr_items d @ ''}''"

text \<open>
  \<^verbatim>\<open>eval\<close> is modelled on the texts \<^verbatim>\<open>str\<close> produces: a dictionary display with
  string keys and integer, decimal or string values, written with the separators
  \<^verbatim>\<open>", "\<close> and \<^verbatim>\<open>": "\<close>. Any other text is refused (\<open>None\<close>, a
  \<^verbatim>\<open>SyntaxError\<close> for the caller), where Python would evaluate an arbitrary expression.
\<close>

fun parse_str_body :: "char \<Rightarrow> string \<Rightarrow> (string \<times> string) option" where
  "parse_str_body q [] = None"
| "parse_str_body q (c # cs) =
     (if c = q then Some ([], cs)
      else if c = bslash then
        (case cs of
           [] \<Rightarrow> None
         | e # cs' \<Rightarrow>
             if e = bslash \<or> e = squote \<or> e = dquote
               then map_option (apfst ((#) e)) (parse_str_body q cs')
             else if e = CHR ''t'' then map_option (apfst ((#) tab)) (parse_str_body q cs')
             else if e = CHR ''n'' then map_option (apfst ((#) newline)) (parse_str_body q cs')
             else if e = CHR ''r'' then map_option (apfst ((#) creturn)) (parse_str_body q cs')
             else if e = CHR ''x'' then
               (case cs' of
                  h1 # h2 # cs'' \<Rightarrow>
                    (case (hex_val h1, hex_val h2) of
                       (Some a, Some b) \<Rightarrow>
                         map_option (apfst ((#) (char_of (16 * a + b)))) (parse_str_body q cs'')
                     | _ \<Rightarrow> None)
                | _ \<Rightarrow> None)
             else None)
      else if c = newline then None
      else map_option (apfst ((#) c)) (parse_str_body q cs))"

definition parse_number :: "string \<Rightarrow> (pyval \<times> string) option" where
  "parse_number s =
     (let neg = (s \<noteq> [] \<and> hd s = CHR ''-'');
          s1 = (if neg then tl s else s);
          ds = takeWhile is_digit s1;
          r1 = dropWhile is_digit s1
      in if ds = [] then None
         else if r1 \<noteq> [] \<and> hd r1 = CHR ''.'' then
           (case takeWhile is_digit (tl r1) of
              [] \<Rightarrow> None
            | f # fs \<Rightarrow>
                Some (PyFloat (Decimal neg (read_nat ds) (nat_digit (digit_val f))
                                 (map (\<lambda>c. nat_digit (digit_val c)) fs)),
                      dropWhile is_digit (tl r1)))
         else Some (PyInt (if neg then - int (read_nat ds) else int (read_nat ds)), r1))"

definition parse_value :: "string \<Rightarrow> (pyval \<times> string) option" where
  "parse_value s =
     (case s of
        [] \<Rightarrow> None
      | c # cs \<Rightarrow>
          if c = squote \<or> c = dquote then map_option (apfst PyStr) (parse_str_body c cs)
          else parse_number s)"

text \<open>
  The parsers consume input, which is what the recursion through the items of a dictionary
  needs to terminate.
\<close>

lemma parse_str_body_shorter:
  "parse_str_body q s = Some (k, r) \<Longrightarrow> length r < length s"
proof (induction s arbitrary: k rule: length_induct)
  case (1 s)
  have IH: "\<And>ys k'. length ys < length s \<Longrightarrow> parse_str_body q ys = Some (k', r)
              \<Longrightarrow> length r < length ys"
    using "1.IH" by blast
  show ?case
  proof (cases s)
    case Nil
    with "1.prems" show ?thesis by simp
  next
    case (Cons c cs)
    show ?thesis
      using "1.prems" unfolding Cons
      by (auto split: if_splits list.splits option.splits
               dest!: IH [unfolded Cons, rotated])
  qed
qed


lemma parse_number_shorter: "parse_number s = Some (v, r) \<Longrightarrow> length r \<le> length s"
proof -
  have d: "\<And>xs. length (dropWhile is_digit xs) \<le> length xs"
    by (simp add: length_dropWhile_le)
  have t: "\<And>xs::string. length (tl xs) \<le> length xs" by simp
  have dt: "\<And>xs. length (dropWhile is_digit (tl xs)) \<le> length xs"
    using d t le_trans by blast
  assume "parse_number s = Some (v, r)"
  then consider "r = dropWhile is_digit (tl (dropWhile is_digit (tl s)))"
    | "r = dropWhile is_digit (tl (dropWhile is_digit s))"
    | "r = dropWhile is_digit (tl s)" | "r = dropWhile is_digit s"
    by (auto simp: parse_number_def Let_def split: if_splits list.splits)
  then show ?thesis
  proof cases
    case 1
    then show ?thesis
      using dt [of "dropWhile is_digit (tl s)"] dt [of s] le_trans by blast
  next
    case 2
    then show ?thesis
      using dt [of "dropWhile is_digit s"] d [of s] le_trans by blast
  next
    case 3
    then show ?thesis using dt [of s] by simp
  next
    case 4
    then show ?thesis using d [of s] by simp
  qed
qed

lemma parse_value_shorter: "parse_value s = Some (v, r) \<Longrightarrow> length r \<le> length s"
  by (cases s)
     (auto simp: parse_value_def split: if_splits
           dest: parse_number_shorter parse_str_body_shorter less_imp_le_nat)

function parse_items :: "string \<Rightarrow> (string \<times> pyval) list option" where
  "parse_items s =
     (case s of
        [] \<Rightarrow> None
      | q # s0 \<Rightarrow>
          if q \<noteq> squote \<and> q \<noteq> dquote then None
          else
            (case parse_str_body q s0 of
               None \<Rightarrow> None
             | Some (k, r1) \<Rightarrow>
                 if take 2 r1 \<noteq> '': '' then None
                 else
                   (case parse_value (drop 2 r1) of
                      None \<Rightarrow> None
                    | Some (v, r3) \<Rightarrow>
                        if r3 = ''}'' then Some [(k, v)]
                        else if take 2 r3 = '', ''
                          then map_option ((#) (k, v)) (parse_items (drop 2 r3))
                        else None)))"
  by pat_completeness auto
termination
proof (relation "measure length")
  show "wf (measure length)" by simp
next
  fix s q s0 x2 k r1 x2a v r3
  assume "s = q # s0" "parse_str_body q s0 = Some x2" "(k, r1) = x2"
    "parse_value (drop 2 r1) = Some x2a" "(v, r3) = x2a"
  then have "length r1 < length s0" "length r3 \<le> length (drop 2 r1)"
    by (auto dest: parse_str_body_shorter parse_value_shorter)
  with \<open>s = q # s0\<close> show "(drop 2 r3, s) \<in> measure length" by simp
qed

declare parse_items.simps [simp del]

text \<open>
  A dictionary is an association list in insertion order; a key that occurs again in a
  display replaces the earlier value in place.
\<close>

definition py_eval :: "string \<Rightarrow> (string \<times> pyval) list option" where
  "py_eval s =
     (case s of
        [] \<Rightarrow> None
      | c # r \<Rightarrow>
          if c \<noteq> CHR ''{'' then None
          else if r = ''}'' then Some []
          else map_option (\<lambda>items. foldl (\<lambda>d kv. AList.update (fst kv) (snd kv) d) [] items)
                 (parse_items r))"

text \<open>
  What follows a value inside a dictionary display: a comma or the closing brace.
\<close>

definition item_end :: "string \<Rightarrow> bool" where
  "item_end rest = (rest \<noteq> [] \<and> (hd rest = CHR '','' \<or> hd rest = CHR ''}''))"

section \<open>The module-level parameter block of the download script\<close>

text \<open>
  Lines 52 to 72 of the script, but for the client, which is among the collaborators
  below, and \<^verbatim>\<open>flag\<close>, which only switches a progress message. \<open>samp_freq\<close>,
  \<open>cc_len\<close> and \<open>step\<close> are integer literals in the source and \<open>MAX_MEM\<close> is a float
  literal; the parameters that are only passed on and saved are kept as Python values.
\<close>

record parameters =
  down_list :: bool
  samp_freq :: int
  rm_resp :: string
  freqmin :: pyval
  freqmax :: pyval
  lamin :: pyval
  lamax :: pyval
  lomin :: pyval
  lomax :: pyval
  net_list :: "string list"
  cc_len :: int
  step :: int
  MAX_MEM :: decimal

definition script_parameters :: parameters where
  "script_parameters =
     \<lparr>down_list = False, samp_freq = 20, rm_resp = ''no'',
      freqmin = PyFloat (Decimal False 0 D0 [D5]), freqmax = PyInt 2,
      lamin = PyFloat (Decimal False 32 D9 []), lamax = PyFloat (Decimal False 35 D9 []),
      lomin = PyFloat (Decimal True 120 D7 []), lomax = PyFloat (Decimal True 118 D5 []),
      net_list = [''CI''], cc_len = 1800, step = 450, MAX_MEM = Decimal False 5 D0 []\<rparr>"

section \<open>Memory estimate (lines 175 to 181)\<close>

definition nsec_chunk :: "int \<Rightarrow> real" where
  "nsec_chunk inc_hours = real_of_int inc_hours / 24 * 86400"

definition nseg_chunk :: "parameters \<Rightarrow> int \<Rightarrow> int" where
  "nseg_chunk p inc_hours =
     \<lfloor>(nsec_chunk inc_hours - real_of_int (cc_len p)) / real_of_int (step p)\<rfloor> + 1"

definition npts_chunk :: "parameters \<Rightarrow> int \<Rightarrow> int" where
  "npts_chunk p inc_hours = nseg_chunk p inc_hours * cc_len p * samp_freq p"

definition memory_size :: "parameters \<Rightarrow> int \<Rightarrow> int \<Rightarrow> real" where
  "memory_size p nsta inc_hours =
     real_of_int (nsta * npts_chunk p inc_hours * 4) / 1024 ^ 3"

text \<open>
  The division by \<open>step\<close> is a float division in the source, so a zero \<open>step\<close>
  raises \<^verbatim>\<open>ZeroDivisionError\<close> before anything is estimated.
\<close>

definition memory_check :: "parameters \<Rightarrow> int \<Rightarrow> int \<Rightarrow> py_error + unit" where
  "memory_check p nsta inc_hours =
     (if step p = 0 then Inl ZeroDivisionError
      else if memory_size p nsta inc_hours > dec_val (MAX_MEM p)
        then Inl (ValueError_memory (memory_size p nsta inc_hours) (dec_val (MAX_MEM p)))
      else Inr ())"

section \<open>Python's \<^verbatim>\<open>range\<close> and the chunk loop of one worker (lines 218 to 229)\<close>

function range_up :: "int \<Rightarrow> int \<Rightarrow> int \<Rightarrow> int list" where
  "range_up i stop stride =
     (if 0 < stride \<and> i < stop then i # range_up (i + stride) stop stride else [])"
  by pat_completeness auto
termination
  by (relation "measure (\<lambda>(i, stop, stride). nat (stop - i))") auto

function range_down :: "int \<Rightarrow> int \<Rightarrow> int \<Rightarrow> int list" where
  "range_down i stop stride =
     (if stride < 0 \<and> stop < i then i # range_down (i + stride) stop stride else [])"
  by pat_completeness auto
termination
  by (relation "measure (\<lambda>(i, stop, stride). nat (i - stop))") auto

declare range_up.simps [simp del] range_down.simps [simp del]

definition py_range :: "int \<Rightarrow> int \<Rightarrow> int \<Rightarrow> py_error + int list" where
  "py_range start stop stride =
     (if stride = 0 then Inl ValueError_range_step
      else if 0 < stride then Inr (range_up start stop stride)
      else Inr (range_down start stop stride))"

text \<open>
  \<^verbatim>\<open>splits = len(all_chunk)-1\<close>, broadcast to every worker, and
  \<^verbatim>\<open>for ick in range(rank,splits,size)\<close>: the chunk indices one worker visits, in the
  order it visits them. Rank 0 raises when the chunk list is empty (line 216).
\<close>

definition splits_of :: "'c list \<Rightarrow> py_error + int" where
  "splits_of all_chunk =
     (if length all_chunk < 1 then Inl ValueError_no_chunk
      else Inr (int (length all_chunk) - 1))"

definition worker_chunks :: "int \<Rightarrow> int \<Rightarrow> 'c list \<Rightarrow> py_error + int list" where
  "worker_chunks rank nproc all_chunk =
     (case splits_of all_chunk of
        Inl e \<Rightarrow> Inl e
      | Inr splits \<Rightarrow> py_range rank splits nproc)"

section \<open>The estimate as the specification words it\<close>






section \<open>The time-chunk planner\<close>

text \<open>
  Modelled from the spec: \<^verbatim>\<open>noise_module.get_event_list\<close>, called at line 215 of the
  download script, lives in a module that is not among the sources. The specification
  (Time-Chunk Planner) gives it a time range and an increment and asks for an ordered list
  of chunk boundaries of length \<open>\<lfloor>(end - start) / increment\<rfloor> + 1\<close>, strictly increasing,
  each chunk ending where the next one starts, and for a \<open>ConfigError\<close> when the increment
  is not positive or the start is not before the end. All chunks have the size of the
  increment (the memory estimate is made once for that size, ``all workers have identical
  chunk sizing''), so the boundaries are one increment apart from the start. Instants and
  the increment are integers in one common unit.
\<close>

definition get_event_list :: "int \<Rightarrow> int \<Rightarrow> int \<Rightarrow> py_error + int list" where
  "get_event_list t_start t_end increment =
     (if increment \<le> 0 \<or> t_start \<ge> t_end then Inl ConfigError
      else Inr (map (\<lambda>i. t_start + i * increment) [0..(t_end - t_start) div increment]))"




section \<open>Paths and the file system\<close>

text \<open>
  \<^verbatim>\<open>os.path.join\<close> on two components, as on POSIX: an absolute second component
  replaces the first, otherwise the two are joined by one slash.
\<close>

definition py_join :: "string \<Rightarrow> string \<Rightarrow> string" where
  "py_join a b =
     (if b \<noteq> [] \<and> hd b = CHR ''/'' then b
      else if a = [] \<or> last a = CHR ''/'' then a @ b
      else a @ CHR ''/'' # b)"

text \<open>
  An ASDF data set is reduced to what the script reads back from it: the station names of
  \<^verbatim>\<open>ds.waveforms.list()\<close>, each with its waveform tags
  (\<^verbatim>\<open>get_waveform_tags()\<close>). Files are text files or ASDF data sets; the file system
  is an association list from paths to files.
\<close>

type_synonym dataset = "string \<Rightarrow> string list option"

datatype stored_file = Text string | ASDF dataset

type_synonym filesystem = "(string \<times> stored_file) list"

definition isfile :: "filesystem \<Rightarrow> string \<Rightarrow> bool" where
  "isfile fs path = (map_of fs path \<noteq> None)"

definition write_file :: "string \<Rightarrow> stored_file \<Rightarrow> filesystem \<Rightarrow> filesystem" where
  "write_file path f fs = AList.update path f fs"

section \<open>Station roster and remote collaborators\<close>

text \<open>
  The script keeps the roster in the parallel lists \<^verbatim>\<open>net\<close>, \<^verbatim>\<open>sta\<close>,
  \<^verbatim>\<open>chan\<close>, \<^verbatim>\<open>location\<close>, \<^verbatim>\<open>lat\<close>, \<^verbatim>\<open>lon\<close>, \<^verbatim>\<open>elev\<close>, all appended to
  together; \<^verbatim>\<open>nsta\<close> is their common length. One entry of the roster is one record.
\<close>

record channel_entry =
  net :: string
  sta :: string
  chan :: string
  location :: string
  latitude :: real
  longitude :: real
  elevation :: real

text \<open>
  Remote calls leave a trace: the catalogue query of line 145, the per-chunk inventory
  query of line 263 and the waveform fetch of line 281, the last two with the chunk's
  boundaries.
\<close>

datatype request =
    CatalogRequest string string string
  | InventoryRequest string string string string string
  | WaveformRequest string string string string string string

text \<open>
  The collaborators of the script: \<^verbatim>\<open>obspy.UTCDateTime\<close> (parsing a date to an
  instant in seconds, and \<^verbatim>\<open>str\<close> of it), the planner's chunk labels, the FDSN client
  (each call returns a value or raises; the catalogue query returns networks with their
  stations, each with the location code of its first channel), the preprocessing
  collaborator \<^verbatim>\<open>noise_module.preprocess_raw\<close>, which returns a stream (a list of
  traces, possibly empty), and pandas reading and writing the station list.
\<close>

record station_info =
  code :: string
  st_latitude :: real
  st_longitude :: real
  st_elevation :: real
  location_code :: string

record ('inv, 'w) collaborators =
  utc_datetime :: "string \<Rightarrow> py_error + int"
  utc_str :: "int \<Rightarrow> string"
  chunk_str :: "int \<Rightarrow> string"
  get_stations_catalog :: "string \<Rightarrow> string \<Rightarrow> string \<Rightarrow> py_error + (string \<times> station_info list) list"
  get_stations :: "string \<Rightarrow> string \<Rightarrow> string \<Rightarrow> string \<Rightarrow> string \<Rightarrow> py_error + 'inv"
  get_waveforms :: "string \<Rightarrow> string \<Rightarrow> string \<Rightarrow> string \<Rightarrow> string \<Rightarrow> string \<Rightarrow> py_error + 'w list"
  preprocess_raw :: "'w list \<Rightarrow> 'inv \<Rightarrow> string \<Rightarrow> string \<Rightarrow> 'w list"
  add_stationxml_ok :: "'inv \<Rightarrow> bool"
  read_station_list :: "string \<Rightarrow> py_error + channel_entry list"
  to_csv :: "channel_entry list \<Rightarrow> string"

section \<open>One station of one chunk (lines 255 to 306)\<close>

text \<open>
  \<^verbatim>\<open>num_records\<close> is a NumPy array of \<^verbatim>\<open>int16\<close> cells. A tag count up to
  32767 is stored as it is; for a larger one NumPy 1 keeps the low 16 bits, read back as a
  signed number, which is what \<open>int16\<close> does (NumPy 2 raises instead).
\<close>

definition int16 :: "int \<Rightarrow> int" where
  "int16 n = sint (word_of_int n :: 16 word)"

definition tname :: "channel_entry \<Rightarrow> string" where
  "tname e = net e @ ''.'' @ sta e"

definition num_record :: "dataset \<Rightarrow> channel_entry \<Rightarrow> int" where
  "num_record rds e =
     (case rds (tname e) of None \<Rightarrow> 0 | Some tags \<Rightarrow> int16 (int (length tags)))"

text \<open>
  \<^verbatim>\<open>str.lower\<close> on the code points below 256: the ASCII capitals and the Latin-1
  capitals (all of 192 to 222 but the multiplication sign 215) move up by 32.
\<close>

definition lower_char :: "char \<Rightarrow> char" where
  "lower_char c =
     (let n = (of_char c :: nat)
      in if (65 \<le> n \<and> n \<le> 90) \<or> (192 \<le> n \<and> n \<le> 222 \<and> n \<noteq> 215)
         then char_of (n + 32) else c)"

definition lower :: "string \<Rightarrow> string" where
  "lower s = map lower_char s"

definition tlocation :: "channel_entry \<Rightarrow> string" where
  "tlocation e = (if location e = ''*'' then ''00'' else location e)"

definition tag_of :: "channel_entry \<Rightarrow> string" where
  "tag_of e = lower (chan e) @ ''_'' @ lower (tlocation e)"

text \<open>
  \<^verbatim>\<open>ds.add_stationxml\<close> creates the station's group when it is new; its failure is
  swallowed by the \<^verbatim>\<open>try\<close> of lines 273 to 276. \<^verbatim>\<open>ds.add_waveforms\<close> files the
  traces under their station and the tag; the traces are those of the requested station.
\<close>

definition add_stationxml :: "dataset \<Rightarrow> string \<Rightarrow> dataset" where
  "add_stationxml ds name = (case ds name of None \<Rightarrow> ds(name \<mapsto> []) | Some tags \<Rightarrow> ds)"

definition add_waveforms :: "dataset \<Rightarrow> string \<Rightarrow> string \<Rightarrow> dataset" where
  "add_waveforms ds name tag =
     (case ds name of None \<Rightarrow> ds(name \<mapsto> [tag]) | Some tags \<Rightarrow> ds(name \<mapsto> List.insert tag tags))"

text \<open>
  The state the station loop changes: the open data set, the function-local variable
  \<^verbatim>\<open>new_tags\<close> (\<open>None\<close> while it is unbound) and the trace of remote calls.
\<close>

record loop_state =
  ds :: dataset
  new_tags :: "string option"
  requests :: "request list"

definition station_step ::
  "('inv, 'w) collaborators \<Rightarrow> int \<Rightarrow> string \<Rightarrow> string \<Rightarrow> int \<Rightarrow> channel_entry
     \<Rightarrow> loop_state \<Rightarrow> (py_error \<times> loop_state) + loop_state" where
  "station_step c ncomp s1 s2 num e st =
     (if num = ncomp then Inr st
      else
        let st1 = st\<lparr>requests := requests st
                      @ [InventoryRequest (net e) (sta e) (location e) s1 s2]\<rparr>
        in case get_stations c (net e) (sta e) (location e) s1 s2 of
             Inl x \<Rightarrow> Inr st1
           | Inr sta_inv \<Rightarrow>
               let st2 = (if add_stationxml_ok c sta_inv
                          then st1\<lparr>ds := add_stationxml (ds st1) (tname e)\<rparr> else st1);
                   st3 = st2\<lparr>requests := requests st2
                      @ [WaveformRequest (net e) (sta e) (chan e) (location e) s1 s2]\<rparr>
               in case get_waveforms c (net e) (sta e) (chan e) (location e) s1 s2 of
                    Inl x \<Rightarrow> Inr st3
                  | Inr raw \<Rightarrow>
                      let tr = preprocess_raw c raw sta_inv s1 s2;
                          st4 = (if length tr \<noteq> 0
                                 then st3\<lparr>ds := add_waveforms (ds st3) (tname e) (tag_of e),
                                         new_tags := Some (tag_of e)\<rparr>
                                 else st3)
                      in case new_tags st4 of
                           None \<Rightarrow> Inl (UnboundLocalError, st4)
                         | Some t \<Rightarrow> Inr st4)"

fun station_loop ::
  "('inv, 'w) collaborators \<Rightarrow> int \<Rightarrow> string \<Rightarrow> string \<Rightarrow> (int \<times> channel_entry) list
     \<Rightarrow> loop_state \<Rightarrow> (py_error \<times> loop_state) + loop_state" where
  "station_loop c ncomp s1 s2 [] st = Inr st"
| "station_loop c ncomp s1 s2 ((num, e) # rest) st =
     (case station_step c ncomp s1 s2 num e st of
        Inl x \<Rightarrow> Inl x
      | Inr st' \<Rightarrow> station_loop c ncomp s1 s2 rest st')"

section \<open>One chunk (lines 231 to 306)\<close>

text \<open>
  The state of a run: the file system, the trace of remote calls, \<^verbatim>\<open>new_tags\<close>,
  which is local to \<^verbatim>\<open>download\<close> and so survives from one chunk to the next, and the
  stages the command line driver has entered.
\<close>

datatype stage = DownloadStage | CrossCorrelateStage | StackStage

record run_state =
  files :: filesystem
  remote_log :: "request list"
  tags_var :: "string option"
  stage_log :: "stage list"

definition chunk_file :: "string \<Rightarrow> string \<Rightarrow> string \<Rightarrow> string" where
  "chunk_file direc c1 c2 = py_join direc (c1 @ ''T'' @ c2 @ ''.h5'')"

text \<open>
  A missing chunk file is created empty and every counter stays zero; an existing one is
  read for the tag counts of the roster's stations. The file is then opened for appending
  and holds what was added to it also when the loop raises.
\<close>

definition download_chunk ::
  "('inv, 'w) collaborators \<Rightarrow> string \<Rightarrow> int \<Rightarrow> channel_entry list \<Rightarrow> string \<Rightarrow> string
     \<Rightarrow> run_state \<Rightarrow> (py_error \<times> run_state) + run_state" where
  "download_chunk c direc ncomp roster c1 c2 st =
     (let ff = chunk_file direc c1 c2
      in case map_of (files st) ff of
           Some (Text t) \<Rightarrow> Inl (OSError, st)
         | other \<Rightarrow>
             let rds = (case other of Some (ASDF d) \<Rightarrow> d | _ \<Rightarrow> Map.empty);
                 num_records = (case other of
                                  None \<Rightarrow> map (\<lambda>e. 0) roster
                                | _ \<Rightarrow> map (num_record rds) roster);
                 fin = (\<lambda>l. st\<lparr>files := write_file ff (ASDF (ds l)) (files st),
                               remote_log := requests l, tags_var := new_tags l\<rparr>)
             in case station_loop c ncomp c1 c2 (zip num_records roster)
                       \<lparr>ds = rds, new_tags = tags_var st, requests = remote_log st\<rparr> of
                  Inl (x, l) \<Rightarrow> Inl (x, fin l)
                | Inr l \<Rightarrow> Inr (fin l))"

section \<open>Vocabulary of the chunk properties\<close>







section \<open>A small data centre for examples\<close>

text \<open>
  One station with three channels; the waveform request of one chosen channel raises and
  the data of another chosen channel preprocess to an empty stream.
\<close>

definition demo_station :: station_info where
  "demo_station =
     \<lparr>code = ''RPV'', st_latitude = 33.7, st_longitude = -118.4, st_elevation = 64,
      location_code = []\<rparr>"

definition demo_client :: "string \<Rightarrow> string \<Rightarrow> (unit, string) collaborators" where
  "demo_client failing silent =
     \<lparr>utc_datetime = (\<lambda>d. if d = ''2016_07_01_0_0_0'' then Inr 1467331200
                          else if d = ''2016_07_02_0_0_0'' then Inr 1467417600
                          else Inl ValueError_date),
      utc_str = (\<lambda>t. if t = 1467331200 then ''2016-07-01T00:00:00.000000Z''
                     else ''2016-07-02T00:00:00.000000Z''),
      chunk_str = (\<lambda>t. if t = 1467331200 then ''2016_07_01_00_00_00''
                       else ''2016_07_02_00_00_00''),
      get_stations_catalog = (\<lambda>n s ch. Inr [(n, [demo_station])]),
      get_stations = (\<lambda>n s l s1 s2. Inr ()),
      get_waveforms = (\<lambda>n s ch l s1 s2. if ch = failing then Inl RemoteError else Inr [ch]),
      preprocess_raw = (\<lambda>raw sta_inv s1 s2. filter (\<lambda>w. w \<noteq> silent) raw),
      add_stationxml_ok = (\<lambda>sta_inv. True),
      read_station_list = (\<lambda>text. Inl IOError),
      to_csv = (\<lambda>roster. ''network,station,channel,latitude,longitude,elevation'')\<rparr>"

definition demo_entry :: "string \<Rightarrow> channel_entry" where
  "demo_entry ch =
     \<lparr>net = ''CI'', sta = ''RPV'', chan = ch, location = ''*'',
      latitude = 0, longitude = 0, elevation = 0\<rparr>"

definition demo_roster :: "channel_entry list" where
  "demo_roster = map demo_entry [''BHE'', ''BHN'', ''BHZ'']"

definition fresh_state :: run_state where
  "fresh_state = \<lparr>files = [], remote_log = [], tags_var = None, stage_log = []\<rparr>"

definition complete_state :: run_state where
  "complete_state =
     \<lparr>files = [(chunk_file ''/data/RAW_DATA'' ''2016_07_01_00_00_00'' ''2016_07_02_00_00_00'',
                ASDF [''CI.RPV'' \<mapsto> [''bhe_00'', ''bhn_00'', ''bhz_00'']])],
      remote_log = [], tags_var = None, stage_log = []\<rparr>"

section \<open>The download stage (lines 78 to 313)\<close>

text \<open>
  \<^verbatim>\<open>start_date[0]\<close>: indexing an empty list raises.
\<close>

definition index0 :: "'a list \<Rightarrow> py_error + 'a" where
  "index0 xs = (case xs of [] \<Rightarrow> Inl IndexError | x # rest \<Rightarrow> Inr x)"

text \<open>
  The catalogue loop of lines 140 to 172: one query for each network, station pattern and
  channel, in that nesting; a query that raises ends the process with \<^verbatim>\<open>sys.exit()\<close>;
  each station of each network of the answer is one more roster entry, with the location
  code of its first channel, or \<^verbatim>\<open>'*'\<close> when that is empty.
\<close>

definition catalog_entries :: "string \<Rightarrow> (string \<times> station_info list) list \<Rightarrow> channel_entry list" where
  "catalog_entries ichan inventory =
     concat (map (\<lambda>(K, stations).
               map (\<lambda>tsta. \<lparr>net = K, sta = code tsta, chan = ichan,
                             location = (if location_code tsta \<noteq> [] then location_code tsta
                                         else ''*''),
                             latitude = st_latitude tsta, longitude = st_longitude tsta,
                             elevation = st_elevation tsta\<rparr>) stations) inventory)"

fun catalog_loop ::
  "('inventory, 'w) collaborators \<Rightarrow> (string \<times> string \<times> string) list
     \<Rightarrow> channel_entry list \<times> request list
     \<Rightarrow> (py_error \<times> request list) + (channel_entry list \<times> request list)" where
  "catalog_loop c [] acc = Inr acc"
| "catalog_loop c ((inet, ista, ichan) # rest) (roster, reqs) =
     (case get_stations_catalog c inet ista ichan of
        Inl x \<Rightarrow> Inl (SystemExit, reqs @ [CatalogRequest inet ista ichan])
      | Inr inventory \<Rightarrow>
          catalog_loop c rest
            (roster @ catalog_entries ichan inventory, reqs @ [CatalogRequest inet ista ichan]))"

definition catalog_queries :: "string list \<Rightarrow> string list \<Rightarrow> string list \<Rightarrow> (string \<times> string \<times> string) list" where
  "catalog_queries nets stas chans =
     concat (map (\<lambda>inet. concat (map (\<lambda>ista. map (\<lambda>ichan. (inet, ista, ichan)) chans) stas)) nets)"

text \<open>
  The dictionary \<^verbatim>\<open>prepro_para\<close> of lines 95 to 110, in its order of insertion.
\<close>

definition prepro_para ::
  "parameters \<Rightarrow> string \<Rightarrow> string \<Rightarrow> string \<Rightarrow> int \<Rightarrow> int \<Rightarrow> (string \<times> pyval) list" where
  "prepro_para p respdir starttime endtime inc_hours ncomp =
     [(''rm_resp'', PyStr (rm_resp p)),
      (''respdir'', PyStr respdir),
      (''freqmin'', freqmin p),
      (''freqmax'', freqmax p),
      (''samp_freq'', PyInt (samp_freq p)),
      (''start_date'', PyStr starttime),
      (''end_date'', PyStr endtime),
      (''inc_hours'', PyInt inc_hours),
      (''cc_len'', PyInt (cc_len p)),
      (''step'', PyInt (step p)),
      (''MAX_MEM'', PyFloat (MAX_MEM p)),
      (''lamin'', lamin p),
      (''lamax'', lamax p),
      (''lomin'', lomin p),
      (''lomax'', lomax p),
      (''ncomp'', PyInt ncomp)]"

text \<open>
  Everything \<^verbatim>\<open>download\<close> does before the MPI section, which every worker does alike:
  the dates, the dictionary, the roster (read from the station list, or asked of the
  catalogue, which also records \<^verbatim>\<open>nsta\<close> in the dictionary) and the memory check.
\<close>

record plan =
  roster_of :: "channel_entry list"
  para_of :: "(string \<times> pyval) list"
  starttime_of :: int
  endtime_of :: int

definition download_plan ::
  "('inventory, 'w) collaborators \<Rightarrow> parameters \<Rightarrow> string \<Rightarrow> string list \<Rightarrow> string list
     \<Rightarrow> string list \<Rightarrow> string list \<Rightarrow> int \<Rightarrow> run_state
     \<Rightarrow> (py_error \<times> run_state) + (plan \<times> run_state)" where
  "download_plan c p rootpath chan_list sta_list start_date end_date inc_hours st =
     (let direc = py_join rootpath ''RAW_DATA'';
          dlist = py_join direc ''station.txt'';
          respdir = py_join rootpath ''resp''
      in case index0 start_date of
           Inl x \<Rightarrow> Inl (x, st)
         | Inr sd \<Rightarrow>
        (case utc_datetime c sd of
           Inl x \<Rightarrow> Inl (x, st)
         | Inr starttime \<Rightarrow>
        (case index0 end_date of
           Inl x \<Rightarrow> Inl (x, st)
         | Inr ed \<Rightarrow>
        (case utc_datetime c ed of
           Inl x \<Rightarrow> Inl (x, st)
         | Inr endtime \<Rightarrow>
        (let ncomp = int (length chan_list);
             para = prepro_para p respdir (utc_str c starttime) (utc_str c endtime)
                      inc_hours ncomp;
             found =
               (if down_list p then
                  (case map_of (files st) dlist of
                     None \<Rightarrow> Inl (IOError, st)
                   | Some (ASDF d) \<Rightarrow> Inl (UnicodeDecodeError, st)
                   | Some (Text t) \<Rightarrow>
                       (case read_station_list c t of
                          Inl x \<Rightarrow> Inl (x, st)
                        | Inr roster \<Rightarrow> Inr (roster, para, st)))
                else
                  (case catalog_loop c (catalog_queries (net_list p) sta_list chan_list)
                          ([], remote_log st) of
                     Inl (x, reqs) \<Rightarrow> Inl (x, st\<lparr>remote_log := reqs\<rparr>)
                   | Inr (roster, reqs) \<Rightarrow>
                       Inr (roster, AList.update ''nsta'' (PyInt (int (length roster))) para,
                            st\<lparr>remote_log := reqs\<rparr>)))
         in case found of
              Inl x \<Rightarrow> Inl x
            | Inr (roster, para', st1) \<Rightarrow>
                (case memory_check p (int (length roster)) inc_hours of
                   Inl x \<Rightarrow> Inl (x, st1)
                 | Inr u \<Rightarrow>
                     Inr (\<lparr>roster_of = roster, para_of = para',
                           starttime_of = starttime, endtime_of = endtime\<rparr>, st1)))))))"

text \<open>
  The chunk loop of one worker. The indices come from \<^verbatim>\<open>range(rank,splits,size)\<close> and
  so lie within the chunk list; an index outside it would raise.
\<close>

fun chunk_loop ::
  "('inventory, 'w) collaborators \<Rightarrow> string \<Rightarrow> int \<Rightarrow> channel_entry list \<Rightarrow> string list
     \<Rightarrow> int list \<Rightarrow> run_state \<Rightarrow> (py_error \<times> run_state) + run_state" where
  "chunk_loop c direc ncomp roster all_chunk [] st = Inr st"
| "chunk_loop c direc ncomp roster all_chunk (ick # rest) st =
     (if 0 \<le> ick \<and> nat ick + 1 < length all_chunk then
        (case download_chunk c direc ncomp roster (all_chunk ! nat ick)
                (all_chunk ! (nat ick + 1)) st of
           Inl x \<Rightarrow> Inl x
         | Inr st' \<Rightarrow> chunk_loop c direc ncomp roster all_chunk rest st')
      else Inl (IndexError, st))"

text \<open>
  The worker of rank 0 writes the station list and the parameter record and plans the
  chunks (in seconds: the increment is \<open>inc_hours\<close> hours); the plan is broadcast. Every
  worker then walks its chunks. After the barrier the worker of rank 0 calls
  \<^verbatim>\<open>sys.exit()\<close> (lines 311 to 313); the others return. Directories are implicit in
  the paths, so \<^verbatim>\<open>os.mkdir\<close> has nothing to do here. The local variable
  \<^verbatim>\<open>new_tags\<close> is unbound when the loop starts.
\<close>

definition download ::
  "('inventory, 'w) collaborators \<Rightarrow> parameters \<Rightarrow> int \<Rightarrow> int \<Rightarrow> string \<Rightarrow> string list
     \<Rightarrow> string list \<Rightarrow> string list \<Rightarrow> string list \<Rightarrow> int \<Rightarrow> run_state
     \<Rightarrow> (py_error \<times> run_state) + run_state" where
  "download c p rank nproc rootpath chan_list sta_list start_date end_date inc_hours st =
     (case download_plan c p rootpath chan_list sta_list start_date end_date inc_hours st of
        Inl x \<Rightarrow> Inl x
      | Inr (pl, st1) \<Rightarrow>
          let direc = py_join rootpath ''RAW_DATA'';
              metadata = py_join direc ''download_info.txt'';
              fs1 = (if \<not> down_list p
                     then write_file (py_join direc ''station.txt'')
                            (Text (to_csv c (roster_of pl))) (files st1)
                     else files st1);
              st2 = (if rank = 0
                     then st1\<lparr>files := write_file metadata (Text (py_str (para_of pl))) fs1,
                              tags_var := None\<rparr>
                     else st1\<lparr>tags_var := None\<rparr>)
          in case get_event_list (starttime_of pl) (endtime_of pl) (inc_hours * 3600) of
               Inl x \<Rightarrow> Inl (if rank = 0 then x else BroadcastNeverArrives, st2)
             | Inr bounds \<Rightarrow>
                 let all_chunk = map (chunk_str c) bounds
                 in case worker_chunks rank nproc all_chunk of
                      Inl x \<Rightarrow>
                        Inl (if rank \<noteq> 0 \<and> x = ValueError_no_chunk
                             then BroadcastNeverArrives else x, st2)
                    | Inr icks \<Rightarrow>
                        (case chunk_loop c direc (int (length chan_list)) (roster_of pl)
                                all_chunk icks st2 of
                           Inl x \<Rightarrow> Inl x
                         | Inr st3 \<Rightarrow> if rank = 0 then Inl (SystemExit, st3) else Inr st3))"

section \<open>The command line driver \<^verbatim>\<open>noisepy/seis/main.py\<close>\<close>

datatype Step = DOWNLOAD | CROSS_CORRELATE | STACK | ALL'

text \<open>
  The attributes of \<^verbatim>\<open>ConfigParameters\<close> that \<^verbatim>\<open>main.py\<close> assigns; the class
  itself (\<^verbatim>\<open>datatypes.py\<close>) is not among the sources, so its other attributes are the
  extension of the record and its freshly constructed value is a parameter.
\<close>

record ConfigParameters =
  cfg_samp_freq :: pyval
  cfg_freqmin :: pyval
  cfg_freqmax :: pyval
  cfg_start_date :: pyval
  cfg_end_date :: pyval
  cfg_inc_hours :: pyval
  cfg_ncomp :: pyval
  cfg_freq_norm :: string

datatype catalog = CSVChannelCatalog string | FDSNChannelCatalog string string

datatype raw_store = ASDFRawDataStore string | SCEDCS3DataStore string catalog

datatype cc_store = ASDFCCStore string

text \<open>
  What \<^verbatim>\<open>main.py\<close> imports from modules that are not among the sources: the default
  \<^verbatim>\<open>ConfigParameters()\<close>, the constant \<^verbatim>\<open>STATION_FILE\<close>, the two later stages
  \<^verbatim>\<open>cross_correlate\<close> and \<^verbatim>\<open>stack\<close>, and the working directory of the process.
\<close>

record 'm stage_env =
  default_params :: "'m ConfigParameters_scheme"
  STATION_FILE :: string
  getcwd :: string
  cross_correlate :: "raw_store \<Rightarrow> 'm ConfigParameters_scheme \<Rightarrow> cc_store \<Rightarrow> filesystem
                        \<Rightarrow> py_error + filesystem"
  stack :: "string \<Rightarrow> string \<Rightarrow> filesystem \<Rightarrow> py_error + filesystem"

definition getitem :: "(string \<times> pyval) list \<Rightarrow> string \<Rightarrow> py_error + pyval" where
  "getitem d k = (case map_of d k of None \<Rightarrow> Inl (KeyError k) | Some v \<Rightarrow> Inr v)"

definition initialize_fft_params ::
  "'m stage_env \<Rightarrow> filesystem \<Rightarrow> string \<Rightarrow> py_error + 'm ConfigParameters_scheme" where
  "initialize_fft_params env fs raw_dir =
     (let params = default_params env;
          dfile = py_join raw_dir ''download_info.txt''
      in if isfile fs dfile then
           (case map_of fs dfile of
              Some (Text t) \<Rightarrow>
                (case py_eval t of
                   None \<Rightarrow> Inl SyntaxError
                 | Some down_info \<Rightarrow>
                (case getitem down_info ''samp_freq'' of Inl x \<Rightarrow> Inl x | Inr v1 \<Rightarrow>
                (case getitem down_info ''freqmin'' of Inl x \<Rightarrow> Inl x | Inr v2 \<Rightarrow>
                (case getitem down_info ''freqmax'' of Inl x \<Rightarrow> Inl x | Inr v3 \<Rightarrow>
                (case getitem down_info ''start_date'' of Inl x \<Rightarrow> Inl x | Inr v4 \<Rightarrow>
                (case getitem down_info ''end_date'' of Inl x \<Rightarrow> Inl x | Inr v5 \<Rightarrow>
                (case getitem down_info ''inc_hours'' of Inl x \<Rightarrow> Inl x | Inr v6 \<Rightarrow>
                (case getitem down_info ''ncomp'' of Inl x \<Rightarrow> Inl x | Inr v7 \<Rightarrow>
                   Inr (params\<lparr>cfg_samp_freq := v1, cfg_freqmin := v2, cfg_freqmax := v3,
                               cfg_start_date := v4, cfg_end_date := v5,
                               cfg_inc_hours := v6, cfg_ncomp := v7\<rparr>)))))))))
            | other \<Rightarrow> Inl UnicodeDecodeError)
         else Inr params)"

text \<open>
  \<^verbatim>\<open>glob(os.path.join(raw_dir, pat))\<close> for a pattern without a directory part: the
  names in \<^verbatim>\<open>raw_dir\<close> that match, where a name starting with a dot matches only a
  pattern that starts with a dot. The patterns of \<^verbatim>\<open>create_raw_store\<close> use the
  wildcard \<^verbatim>\<open>*\<close> only, which is the one \<open>fnmatch\<close> knows here; \<^verbatim>\<open>raw_dir\<close> is
  taken literally.
\<close>

definition dir_prefix :: "string \<Rightarrow> string" where
  "dir_prefix d = (if d = [] \<or> last d = CHR ''/'' then d else d @ ''/'')"

definition child_name :: "string \<Rightarrow> string \<Rightarrow> string list" where
  "child_name d path =
     (let pre = dir_prefix d; name = drop (length pre) path
      in if take (length pre) path = pre \<and> name \<noteq> [] \<and> CHR ''/'' \<notin> set name
         then [name] else [])"

definition listdir :: "filesystem \<Rightarrow> string \<Rightarrow> string list" where
  "listdir fs d = concat (map (\<lambda>(path, f). child_name d path) fs)"

fun fnmatch :: "string \<Rightarrow> string \<Rightarrow> bool" where
  "fnmatch [] name = (name = [])"
| "fnmatch (p # ps) [] = (p = CHR ''*'' \<and> fnmatch ps [])"
| "fnmatch (p # ps) (c # cs) =
     (if p = CHR ''*'' then fnmatch ps (c # cs) \<or> fnmatch (p # ps) cs
      else p = c \<and> fnmatch ps cs)"

definition ishidden :: "string \<Rightarrow> bool" where
  "ishidden name = (name \<noteq> [] \<and> hd name = CHR ''.'')"

definition glob :: "filesystem \<Rightarrow> string \<Rightarrow> string \<Rightarrow> string list" where
  "glob fs d pat =
     map (py_join d)
       (filter (\<lambda>name. (ishidden pat \<or> \<not> ishidden name) \<and> fnmatch pat name) (listdir fs d))"

definition create_raw_store :: "'m stage_env \<Rightarrow> filesystem \<Rightarrow> string \<Rightarrow> py_error + raw_store" where
  "create_raw_store env fs raw_dir =
     (let count = (\<lambda>pat. length (glob fs raw_dir pat))
      in if count ''*.h5'' > 0 then Inr (ASDFRawDataStore raw_dir)
         else if \<not> (count ''*.ms'' > 0 \<or> count ''*.sac'' > 0) then Inl AssertionError
         else Inr (SCEDCS3DataStore raw_dir
                     (if isfile fs (py_join raw_dir (STATION_FILE env))
                      then CSVChannelCatalog raw_dir
                      else FDSNChannelCatalog ''SCEDC'' (py_join (getcwd env) ''noisepy_cache''))))"

record args =
  arg_step :: Step
  arg_path :: string
  arg_channels :: "string list"
  arg_stations :: "string list"
  arg_start :: string
  arg_end :: string
  arg_inc_hours :: int
  arg_freq_norm :: string
  arg_method :: string

definition enter :: "stage \<Rightarrow> run_state \<Rightarrow> run_state" where
  "enter s st = st\<lparr>stage_log := stage_log st @ [s]\<rparr>"

definition run_cross_correlation ::
  "'m stage_env \<Rightarrow> args \<Rightarrow> run_state \<Rightarrow> (py_error \<times> run_state) + run_state" where
  "run_cross_correlation env a st0 =
     (let st = enter CrossCorrelateStage st0;
          raw_dir = py_join (arg_path a) ''RAW_DATA'';
          ccf_dir = py_join (arg_path a) ''CCF''
      in case initialize_fft_params env (files st) raw_dir of
           Inl x \<Rightarrow> Inl (x, st)
         | Inr fft_params \<Rightarrow>
             let fft_params' = fft_params\<lparr>cfg_freq_norm := arg_freq_norm a\<rparr>;
                 ccstore = ASDFCCStore ccf_dir
             in case create_raw_store env (files st) raw_dir of
                  Inl x \<Rightarrow> Inl (x, st)
                | Inr rawstore \<Rightarrow>
                    (case cross_correlate env rawstore fft_params' ccstore (files st) of
                       Inl x \<Rightarrow> Inl (x, st)
                     | Inr fs' \<Rightarrow> Inr (st\<lparr>files := fs'\<rparr>)))"

definition run_stack :: "'m stage_env \<Rightarrow> args \<Rightarrow> run_state \<Rightarrow> (py_error \<times> run_state) + run_state" where
  "run_stack env a st0 =
     (let st = enter StackStage st0
      in case stack env (arg_path a) (arg_method a) (files st) of
           Inl x \<Rightarrow> Inl (x, st)
         | Inr fs' \<Rightarrow> Inr (st\<lparr>files := fs'\<rparr>))"

definition run_download ::
  "('inv, 'w) collaborators \<Rightarrow> parameters \<Rightarrow> int \<Rightarrow> int \<Rightarrow> args \<Rightarrow> run_state
     \<Rightarrow> (py_error \<times> run_state) + run_state" where
  "run_download c p rank nproc a st =
     download c p rank nproc (arg_path a) (arg_channels a) (arg_stations a)
       [arg_start a] [arg_end a] (arg_inc_hours a) (enter DownloadStage st)"

text \<open>
  A statement that raises ends what follows it.
\<close>

definition and_then ::
  "(py_error \<times> run_state) + run_state \<Rightarrow> (run_state \<Rightarrow> (py_error \<times> run_state) + run_state)
     \<Rightarrow> (py_error \<times> run_state) + run_state" where
  "and_then r f = (case r of Inl x \<Rightarrow> Inl x | Inr st \<Rightarrow> f st)"

text \<open>
  \<^verbatim>\<open>main\<close>: four \<^verbatim>\<open>if\<close> statements in a row, one for each value of the step.
\<close>

definition main ::
  "('inv, 'w) collaborators \<Rightarrow> 'm stage_env \<Rightarrow> parameters \<Rightarrow> int \<Rightarrow> int \<Rightarrow> args \<Rightarrow> run_state
     \<Rightarrow> (py_error \<times> run_state) + run_state" where
  "main c env p rank nproc a st =
     and_then
       (and_then
          (and_then
             (if arg_step a = DOWNLOAD then run_download c p rank nproc a st else Inr st)
             (\<lambda>st. if arg_step a = CROSS_CORRELATE then run_cross_correlation env a st
                    else Inr st))
          (\<lambda>st. if arg_step a = STACK then run_stack env a st else Inr st))
       (\<lambda>st. if arg_step a = ALL'
              then and_then
                     (and_then (run_download c p rank nproc a st) (run_cross_correlation env a))
                     (run_stack env a)
              else Inr st)"

section \<open>Vocabulary of the driver's properties\<close>


text \<open>
  Example values of what the driver imports: a default configuration, and later stages
  that leave the files as they are. A raw-data directory with one ASDF file and no
  parameter record, and one with a miniSEED file and a station list.
\<close>

definition demo_env :: "unit stage_env" where
  "demo_env =
     \<lparr>default_params =
        \<lparr>cfg_samp_freq = PyInt 0, cfg_freqmin = PyInt 0, cfg_freqmax = PyInt 0,
         cfg_start_date = PyStr [], cfg_end_date = PyStr [], cfg_inc_hours = PyInt 0,
         cfg_ncomp = PyInt 0, cfg_freq_norm = []\<rparr>,
      STATION_FILE = ''station.txt'',
      getcwd = ''/home/user'',
      cross_correlate = (\<lambda>rawstore params ccstore fs. Inr fs),
      stack = (\<lambda>path method fs. Inr fs)\<rparr>"

definition demo_args :: args where
  "demo_args =
     \<lparr>arg_step = ALL', arg_path = ''/data'', arg_channels = [''BHE'', ''BHN'', ''BHZ''],
      arg_stations = [''*''], arg_start = ''2016_07_01_0_0_0'', arg_end = ''2016_07_02_0_0_0'',
      arg_inc_hours = 24, arg_freq_norm = ''rma'', arg_method = ''linear''\<rparr>"

definition raw_only :: filesystem where
  "raw_only = [(''/data/RAW_DATA/2016_07_01_00_00_00T2016_07_02_00_00_00.h5'', ASDF Map.empty)]"


section \<open>Properties\<close>

subsection \<open>Memory estimate\<close>






subsection \<open>Round-robin partition of the chunk indices\<close>














subsection \<open>Time-chunk planner\<close>
















subsection \<open>Processing one chunk\<close>

lemma int16_small: "0 \<le> n \<Longrightarrow> n \<le> 32767 \<Longrightarrow> int16 n = n"
  unfolding int16_def
  by (simp add: int_word_sint)



lemma station_step_skip: "station_step c ncomp s1 s2 ncomp e st = Inr st"
  by (simp add: station_step_def)

lemma station_loop_skip:
  "\<forall>(num, e) \<in> set xs. num = ncomp \<Longrightarrow> station_loop c ncomp s1 s2 xs st = Inr st"
  by (induction xs arbitrary: st) (auto simp: station_step_skip)


lemma complete_chunk_counts:
  assumes "\<forall>e \<in> set roster. \<exists>tags. rds (tname e) = Some tags \<and> int (length tags) = ncomp"
    and "ncomp \<le> 32767"
  shows "\<forall>(num, e) \<in> set (zip (map (num_record rds) roster) roster). num = ncomp"
proof -
  have "\<And>e. e \<in> set roster \<Longrightarrow> num_record rds e = ncomp"
  proof -
    fix e assume "e \<in> set roster"
    with assms(1) obtain tags where t: "rds (tname e) = Some tags" "int (length tags) = ncomp"
      by blast
    with assms(2) show "num_record rds e = ncomp"
      by (simp add: num_record_def int16_small)
  qed
  then show ?thesis by (auto simp: zip_map1 in_set_zip)
qed

text \<open>
  Claim C1. When the chunk's file exists and every roster station holds as many waveform
  tags as there are expected channels (\<open>ncomp\<close>, within the range of the 16-bit counter),
  processing the chunk again returns normally with the trace of remote calls unchanged:
  every station is skipped at line 258, before the inventory query and the waveform
  request. The data and the variable \<^verbatim>\<open>new_tags\<close> are unchanged as well.
\<close>

theorem complete_chunk_no_fetch:
  assumes "map_of (files st) (chunk_file direc c1 c2) = Some (ASDF rds)"
    and "\<forall>e \<in> set roster. \<exists>tags. rds (tname e) = Some tags \<and> int (length tags) = ncomp"
    and "ncomp \<le> 32767"
  shows "\<exists>st'. download_chunk c direc ncomp roster c1 c2 st = Inr st'
           \<and> remote_log st' = remote_log st
           \<and> tags_var st' = tags_var st
           \<and> map_of (files st') = map_of (files st)"
proof -
  note skip = station_loop_skip [OF complete_chunk_counts [OF assms(2,3)]]
  have "(map_of (files st))(chunk_file direc c1 c2 \<mapsto> ASDF rds) = map_of (files st)"
    using assms(1) by (simp add: map_upd_triv)
  then show ?thesis
    using assms(1) by (simp add: download_chunk_def skip write_file_def update_conv')
qed

theorem complete_chunk_no_fetch_witness:
  "map_of (files complete_state)
       (chunk_file ''/data/RAW_DATA'' ''2016_07_01_00_00_00'' ''2016_07_02_00_00_00'')
     = Some (ASDF [''CI.RPV'' \<mapsto> [''bhe_00'', ''bhn_00'', ''bhz_00'']])
   \<and> list_all (\<lambda>e. \<exists>tags.
          [''CI.RPV'' \<mapsto> [''bhe_00'', ''bhn_00'', ''bhz_00'']] (tname e) = Some tags
          \<and> int (length tags) = 3) demo_roster
   \<and> (3::int) \<le> 32767
   \<and> (\<exists>st'. download_chunk (demo_client [] []) ''/data/RAW_DATA'' 3 demo_roster
               ''2016_07_01_00_00_00'' ''2016_07_02_00_00_00'' complete_state = Inr st'
            \<and> remote_log st' = [])"
proof -
  have h1: "map_of (files complete_state)
       (chunk_file ''/data/RAW_DATA'' ''2016_07_01_00_00_00'' ''2016_07_02_00_00_00'')
     = Some (ASDF [''CI.RPV'' \<mapsto> [''bhe_00'', ''bhn_00'', ''bhz_00'']])"
    by (simp add: complete_state_def)
  have h2: "\<forall>e \<in> set demo_roster. \<exists>tags.
          [''CI.RPV'' \<mapsto> [''bhe_00'', ''bhn_00'', ''bhz_00'']] (tname e) = Some tags
          \<and> int (length tags) = 3"
    by (simp add: demo_roster_def demo_entry_def tname_def)
  have h3: "(3::int) \<le> 32767" by simp
  have "remote_log complete_state = []" by (simp add: complete_state_def)
  with complete_chunk_no_fetch [OF h1 h2 h3, of "demo_client [] []"] h1 h2 h3
  show ?thesis by (auto simp: list_all_iff)
qed



















text \<open>
  Claim C7 fails on the code. The guard of line 297 persists nothing for an empty
  preprocessing result, but line 306 then prints \<^verbatim>\<open>new_tags\<close>, which is assigned only
  inside that guard. On a fresh run whose first channel preprocesses to an empty stream the
  variable is still unbound and the chunk ends with \<^verbatim>\<open>UnboundLocalError\<close>; once an
  earlier channel has bound it, the same empty result is passed over silently.
\<close>

theorem empty_result_unbound_new_tags:
  "map_sum fst (\<lambda>st'. ())
     (download_chunk (demo_client [] ''BHE'') ''/data/RAW_DATA'' 3 demo_roster
        ''2016_07_01_00_00_00'' ''2016_07_02_00_00_00'' fresh_state)
     = Inl UnboundLocalError
   \<and> map_sum fst tags_var
     (download_chunk (demo_client [] ''BHE'') ''/data/RAW_DATA'' 3 demo_roster
        ''2016_07_01_00_00_00'' ''2016_07_02_00_00_00'' (fresh_state\<lparr>tags_var := Some ''bhz_00''\<rparr>))
     = Inr (Some ''bhz_00'')"
  by code_simp

subsection \<open>Reading back what \<^verbatim>\<open>str\<close> wrote\<close>


lemma of_char_digit_char: "(of_char (digit_char n) :: nat) = 48 + n mod 10"
proof -
  have "48 + n mod 10 < 256" by (rule less_trans [of _ 58]) simp_all
  then show ?thesis by (simp add: digit_char_def)
qed

lemma is_digit_digit_char: "is_digit (digit_char n)"
  by (simp add: is_digit_def of_char_digit_char)

lemma digit_val_digit_char: "digit_val (digit_char n) = n mod 10"
  by (simp add: digit_val_def of_char_digit_char)

lemma show_nat_digits: "\<forall>c \<in> set (show_nat n). is_digit c"
  by (induction n rule: show_nat.induct) (subst show_nat.simps, simp add: is_digit_digit_char)

lemma show_nat_nonempty: "show_nat n \<noteq> []"
  by (subst show_nat.simps) simp

lemma read_nat_show_nat: "read_nat (show_nat n) = n"
proof (induction n rule: show_nat.induct)
  case (1 n)
  show ?case
  proof (cases "n < 10")
    case True
    then show ?thesis
      by (subst show_nat.simps) (simp add: read_nat_def digit_val_digit_char)
  next
    case False
    with 1 have "read_nat (show_nat (n div 10)) = n div 10" by simp
    with False show ?thesis
      by (subst show_nat.simps) (simp add: read_nat_def digit_val_digit_char)
  qed
qed

lemma nat_digit_digit_nat: "nat_digit (digit_nat d) = d"
  by (cases d) (simp_all add: nat_digit_def)

lemma digit_nat_less: "digit_nat d < 10"
  by (cases d) simp_all

lemma hex_val_hex_char: "hex_val (hex_char k) = Some (k mod 16)"
proof (cases "k mod 16 < 10")
  case True
  then have "(of_char (hex_char k) :: nat) = 48 + k mod 16"
    by (simp add: hex_char_def)
  with True show ?thesis by (simp add: hex_val_def)
next
  case False
  have "k mod 16 < 16" by simp
  then have "87 + k mod 16 < 256" by linarith
  with False have "(of_char (hex_char k) :: nat) = 87 + k mod 16"
    by (simp add: hex_char_def)
  moreover have "k mod 16 \<le> 15" using \<open>k mod 16 < 16\<close> by linarith
  ultimately show ?thesis using False by (simp add: hex_val_def Let_def)
qed

lemma char_of_hex_parts: "char_of (16 * ((of_char c :: nat) div 16 mod 16) + (of_char c :: nat) mod 16) = c"
proof -
  have "(of_char c :: nat) < 256" by simp
  then have "(of_char c :: nat) div 16 < 16" by (intro less_mult_imp_div_less) simp
  then have "(of_char c :: nat) div 16 mod 16 = (of_char c :: nat) div 16" by simp
  then show ?thesis by simp
qed

lemma parse_repr_char:
  assumes "q = squote \<or> q = dquote"
    and "parse_str_body q rest = Some (s, r)"
  shows "parse_str_body q (repr_char q c @ rest) = Some (c # s, r)"
proof -
  consider (esc) "c = q \<or> c = bslash"
    | (t) "\<not> (c = q \<or> c = bslash)" "c = tab"
    | (n) "\<not> (c = q \<or> c = bslash)" "c = newline"
    | (r) "\<not> (c = q \<or> c = bslash)" "c = creturn"
    | (x) "\<not> (c = q \<or> c = bslash)" "c \<noteq> tab" "c \<noteq> newline" "c \<noteq> creturn" "\<not> printable c"
    | (p) "\<not> (c = q \<or> c = bslash)" "c \<noteq> tab" "c \<noteq> newline" "c \<noteq> creturn" "printable c"
    by blast
  then show ?thesis
  proof cases
    case esc
    with assms show ?thesis by (auto simp: repr_char_def)
  next
    case t
    with assms show ?thesis by (auto simp: repr_char_def)
  next
    case n
    with assms show ?thesis by (auto simp: repr_char_def)
  next
    case r
    with assms show ?thesis by (auto simp: repr_char_def)
  next
    case x
    then have "repr_char q c = [bslash, CHR ''x'', hex_char (of_char c div 16), hex_char (of_char c)]"
      by (simp add: repr_char_def)
    with assms show ?thesis
      by (auto simp: hex_val_hex_char char_of_hex_parts)
  next
    case p
    then have "repr_char q c = [c]" by (simp add: repr_char_def)
    with p assms show ?thesis by auto
  qed
qed

lemma parse_repr_body:
  assumes "q = squote \<or> q = dquote"
  shows "parse_str_body q (concat (map (repr_char q) s) @ q # rest) = Some (s, rest)"
proof (induction s)
  case Nil
  show ?case by simp
next
  case (Cons c s)
  from parse_repr_char [OF assms Cons, of c] show ?case by simp
qed

lemma repr_quote_cases: "repr_quote s = squote \<or> repr_quote s = dquote"
  by (simp add: repr_quote_def)

lemma parse_repr_str:
  "parse_str_body (repr_quote s) (tl (repr_str s) @ rest) = Some (s, rest)"
  using parse_repr_body [where q = "repr_quote s" and s = s and rest = rest, OF repr_quote_cases]
  by (simp add: repr_str_def Let_def)

lemma repr_str_hd: "repr_str s = repr_quote s # tl (repr_str s)"
  by (simp add: repr_str_def Let_def)


lemma digit_not_punct:
  "is_digit c \<Longrightarrow> c \<noteq> squote \<and> c \<noteq> dquote \<and> c \<noteq> CHR ''-'' \<and> c \<noteq> CHR ''.''"
  by (auto simp: is_digit_def)

lemma take_digits:
  assumes "\<forall>c \<in> set dgs. is_digit c" "rest = [] \<or> \<not> is_digit (hd rest)"
  shows "takeWhile is_digit (dgs @ rest) = dgs" "dropWhile is_digit (dgs @ rest) = rest"
proof -
  have "takeWhile is_digit rest = []" "dropWhile is_digit rest = rest"
    using assms(2) by (cases rest; simp)+
  with assms(1) show "takeWhile is_digit (dgs @ rest) = dgs" "dropWhile is_digit (dgs @ rest) = rest"
    by (simp_all add: takeWhile_append2 dropWhile_append2)
qed

lemma show_nat_hd_digit: "is_digit (hd (show_nat n @ rest))"
  using show_nat_digits [of n] show_nat_nonempty [of n]
  by (cases "show_nat n") auto

lemma parse_number_nat:
  assumes "rest = [] \<or> (\<not> is_digit (hd rest) \<and> hd rest \<noteq> CHR ''.'')"
  shows "parse_number (show_nat n @ rest) = Some (PyInt (int n), rest)"
proof -
  have h: "hd (show_nat n @ rest) \<noteq> CHR ''-''"
    using show_nat_hd_digit [of n rest] digit_not_punct by blast
  have st: "rest = [] \<or> \<not> is_digit (hd rest)" using assms by blast
  have nd: "\<not> (rest \<noteq> [] \<and> hd rest = CHR ''.'')" using assms by blast
  show ?thesis
    using h nd show_nat_nonempty [of n]
    by (auto simp add: parse_number_def Let_def take_digits [OF show_nat_digits st]
        read_nat_show_nat)
qed

lemma parse_number_neg:
  assumes "rest = [] \<or> (\<not> is_digit (hd rest) \<and> hd rest \<noteq> CHR ''.'')"
  shows "parse_number (CHR ''-'' # show_nat n @ rest) = Some (PyInt (- int n), rest)"
proof -
  have st: "rest = [] \<or> \<not> is_digit (hd rest)" using assms by blast
  have nd: "\<not> (rest \<noteq> [] \<and> hd rest = CHR ''.'')" using assms by blast
  show ?thesis
    using nd show_nat_nonempty [of n]
    by (auto simp add: parse_number_def Let_def take_digits [OF show_nat_digits st]
        read_nat_show_nat)
qed

lemma parse_repr_int:
  assumes "rest = [] \<or> (\<not> is_digit (hd rest) \<and> hd rest \<noteq> CHR ''.'')"
  shows "parse_number (repr_int i @ rest) = Some (PyInt i, rest)"
proof (cases "i < 0")
  case True
  then show ?thesis
    using parse_number_neg [OF assms, of "nat (- i)"] by (simp add: repr_int_def)
next
  case False
  then show ?thesis
    using parse_number_nat [OF assms, of "nat i"] by (simp add: repr_int_def)
qed

lemma frac_digits:
  "\<forall>c \<in> set (map (\<lambda>x. digit_char (digit_nat x)) dgs). is_digit c"
  by (simp add: is_digit_digit_char)

lemma frac_back: "map (\<lambda>c. nat_digit (digit_val c)) (map (\<lambda>x. digit_char (digit_nat x)) dgs) = dgs"
proof -
  have "\<And>d. nat_digit (digit_val (digit_char (digit_nat d))) = d"
    using digit_nat_less nat_digit_digit_nat by (simp add: digit_val_digit_char)
  then show ?thesis by (simp add: o_def)
qed

lemma parse_unsigned_decimal:
  assumes "rest = [] \<or> \<not> is_digit (hd rest)"
  shows "takeWhile is_digit (show_nat w @ CHR ''.'' # map (\<lambda>x. digit_char (digit_nat x)) dgs @ rest)
           = show_nat w"
    and "dropWhile is_digit (show_nat w @ CHR ''.'' # map (\<lambda>x. digit_char (digit_nat x)) dgs @ rest)
           = CHR ''.'' # map (\<lambda>x. digit_char (digit_nat x)) dgs @ rest"
    and "takeWhile is_digit (map (\<lambda>x. digit_char (digit_nat x)) dgs @ rest)
           = map (\<lambda>x. digit_char (digit_nat x)) dgs"
    and "dropWhile is_digit (map (\<lambda>x. digit_char (digit_nat x)) dgs @ rest) = rest"
proof -
  let ?fr = "map (\<lambda>x. digit_char (digit_nat x)) dgs"
  have dot: "CHR ''.'' # ?fr @ rest = [] \<or> \<not> is_digit (hd (CHR ''.'' # ?fr @ rest))"
    by (simp add: is_digit_def)
  show "takeWhile is_digit (show_nat w @ CHR ''.'' # ?fr @ rest) = show_nat w"
    by (rule take_digits(1) [OF show_nat_digits dot])
  show "dropWhile is_digit (show_nat w @ CHR ''.'' # ?fr @ rest) = CHR ''.'' # ?fr @ rest"
    by (rule take_digits(2) [OF show_nat_digits dot])
  show "takeWhile is_digit (?fr @ rest) = ?fr"
    by (rule take_digits(1) [OF frac_digits assms(1)])
  show "dropWhile is_digit (?fr @ rest) = rest"
    by (rule take_digits(2) [OF frac_digits assms(1)])
qed

lemma parse_repr_decimal:
  assumes "rest = [] \<or> \<not> is_digit (hd rest)"
  shows "parse_number (repr_decimal f @ rest) = Some (PyFloat f, rest)"
proof (cases f)
  case (Decimal neg w d dgs)
  note u = parse_unsigned_decimal(1,2) [OF assms, of w "d # dgs"]
    parse_unsigned_decimal(3,4) [OF assms, of "d # dgs"]
  have bk: "nat_digit (digit_val (digit_char (digit_nat d))) = d"
    "map (\<lambda>c. nat_digit (digit_val c)) (map (\<lambda>x. digit_char (digit_nat x)) dgs) = dgs"
    using frac_back [of "[d]"] frac_back [of dgs] by simp_all
  show ?thesis
  proof (cases neg)
    case True
    have "parse_number (CHR ''-'' # show_nat w @ CHR ''.'' # map (\<lambda>x. digit_char (digit_nat x)) (d # dgs) @ rest)
            = Some (PyFloat (Decimal True w d dgs), rest)"
      unfolding parse_number_def Let_def
      using show_nat_nonempty [of w] u bk
      by (simp add: read_nat_show_nat)
    with True Decimal show ?thesis by simp
  next
    case False
    have h: "hd (show_nat w @ CHR ''.'' # map (\<lambda>x. digit_char (digit_nat x)) (d # dgs) @ rest) \<noteq> CHR ''-''"
      using show_nat_hd_digit digit_not_punct by blast
    have "parse_number (show_nat w @ CHR ''.'' # map (\<lambda>x. digit_char (digit_nat x)) (d # dgs) @ rest)
            = Some (PyFloat (Decimal False w d dgs), rest)"
      unfolding parse_number_def Let_def
      using show_nat_nonempty [of w] u bk h
      by (simp add: read_nat_show_nat)
    with False Decimal show ?thesis by simp
  qed
qed

lemma item_end_stop:
  "item_end rest \<Longrightarrow> rest = [] \<or> (\<not> is_digit (hd rest) \<and> hd rest \<noteq> CHR ''.'')"
  by (auto simp: item_end_def is_digit_def)

lemma repr_number_hd:
  "hd (repr_int i @ rest) \<noteq> squote \<and> hd (repr_int i @ rest) \<noteq> dquote"
  "hd (repr_decimal f @ rest) \<noteq> squote \<and> hd (repr_decimal f @ rest) \<noteq> dquote"
proof -
  show "hd (repr_int i @ rest) \<noteq> squote \<and> hd (repr_int i @ rest) \<noteq> dquote"
    using show_nat_hd_digit [of "nat i" rest] digit_not_punct
    by (auto simp: repr_int_def)
  show "hd (repr_decimal f @ rest) \<noteq> squote \<and> hd (repr_decimal f @ rest) \<noteq> dquote"
  proof (cases f)
    case (Decimal neg w d dgs)
    then show ?thesis
      using show_nat_hd_digit [of w "CHR ''.'' # map (\<lambda>x. digit_char (digit_nat x)) (d # dgs) @ rest"]
        digit_not_punct
      by (cases neg) auto
  qed
qed

lemma repr_number_nonempty: "repr_int i \<noteq> []" "repr_decimal f \<noteq> []"
  using show_nat_nonempty by (auto simp: repr_int_def intro: decimal.exhaust [of f])

lemma parse_value_number:
  assumes "s \<noteq> []" "hd (s @ rest) \<noteq> squote \<and> hd (s @ rest) \<noteq> dquote"
  shows "parse_value (s @ rest) = parse_number (s @ rest)"
  using assms by (cases s) (simp_all add: parse_value_def)

lemma parse_repr_value:
  assumes "item_end rest"
  shows "parse_value (repr v @ rest) = Some (v, rest)"
proof (cases v)
  case (PyInt i)
  then show ?thesis
    using parse_value_number [OF repr_number_nonempty(1) repr_number_hd(1), of i rest]
      parse_repr_int [OF item_end_stop [OF assms], of i] by simp
next
  case (PyFloat f)
  have "rest = [] \<or> \<not> is_digit (hd rest)" using item_end_stop [OF assms] by blast
  from parse_repr_decimal [OF this, of f] PyFloat show ?thesis
    using parse_value_number [OF repr_number_nonempty(2) repr_number_hd(2), of f rest] by simp
next
  case (PyStr s)
  have e: "repr_str s @ rest = repr_quote s # (tl (repr_str s) @ rest)"
    using repr_str_hd [of s] by (metis append_Cons)
  have key: "\<And>q X. q = squote \<or> q = dquote \<Longrightarrow>
      parse_value (q # X) = map_option (apfst PyStr) (parse_str_body q X)"
    by (auto simp: parse_value_def)
  have "parse_value (repr_str s @ rest) = parse_value (repr_quote s # (tl (repr_str s) @ rest))"
    using e by (rule arg_cong)
  also have "\<dots> = map_option (apfst PyStr) (parse_str_body (repr_quote s) (tl (repr_str s) @ rest))"
    by (rule key [OF repr_quote_cases])
  finally show ?thesis
    using PyStr parse_repr_str [of s rest] by simp
qed


lemma parse_items_item:
  assumes "item_end rest"
  shows "parse_items (repr_item (k, v) @ rest) =
           (if rest = ''}'' then Some [(k, v)]
            else if take 2 rest = '', '' then map_option ((#) (k, v)) (parse_items (drop 2 rest))
            else None)"
proof -
  let ?q = "repr_quote k"
  let ?r1 = "'': '' @ repr v @ rest"
  have e: "repr_item (k, v) @ rest = ?q # (tl (repr_str k) @ ?r1)"
    using repr_str_hd [of k] by (simp add: repr_item_def)
  have q: "\<not> (?q \<noteq> squote \<and> ?q \<noteq> dquote)" using repr_quote_cases [of k] by blast
  have k: "parse_str_body ?q (tl (repr_str k) @ ?r1) = Some (k, ?r1)"
    by (rule parse_repr_str)
  have v: "parse_value (drop 2 ?r1) = Some (v, rest)"
    using parse_repr_value [OF assms, of v] by simp
  have t: "\<not> take 2 ?r1 \<noteq> '': ''" by simp
  show ?thesis
    unfolding e
    by (subst parse_items.simps) (simp only: list.case q if_False k option.case prod.case t v)
qed

lemma repr_items_nonempty: "d \<noteq> [] \<Longrightarrow> repr_items d \<noteq> []"
proof (cases d)
  case Nil
  assume "d \<noteq> []" with Nil show ?thesis by simp
next
  case (Cons kv rest)
  have "repr_item kv \<noteq> []" by (simp add: repr_item_def repr_str_def Let_def)
  with Cons show ?thesis by (cases rest) simp_all
qed

lemma repr_items_hd: "d \<noteq> [] \<Longrightarrow> hd (repr_items d) = squote \<or> hd (repr_items d) = dquote"
proof (cases d)
  case Nil
  assume "d \<noteq> []" with Nil show ?thesis by simp
next
  case (Cons kv rest)
  have "hd (repr_item kv) = repr_quote (fst kv)" by (simp add: repr_item_def repr_str_def Let_def)
  moreover have "repr_item kv \<noteq> []" by (simp add: repr_item_def repr_str_def Let_def)
  ultimately show ?thesis
    using Cons repr_quote_cases [of "fst kv"] by (cases rest) auto
qed

lemma parse_repr_items: "d \<noteq> [] \<Longrightarrow> parse_items (repr_items d @ ''}'') = Some d"
proof (induction d rule: repr_items.induct)
  case 1
  then show ?case by simp
next
  case (2 kv)
  have "item_end ''}''" by (simp add: item_end_def)
  from parse_items_item [OF this, of "fst kv" "snd kv"] show ?case by simp
next
  case (3 kv kv' rest)
  let ?more = "repr_items (kv' # rest) @ ''}''"
  have ie: "item_end ('', '' @ ?more)" by (simp add: item_end_def)
  have "parse_items (repr_item kv @ '', '' @ ?more) = map_option ((#) kv) (parse_items ?more)"
    using parse_items_item [OF ie, of "fst kv" "snd kv"] by simp
  with 3 show ?case by simp
qed

lemma update_fresh: "k \<notin> fst ` set al \<Longrightarrow> AList.update k v al = al @ [(k, v)]"
  by (induction al) auto

lemma foldl_update_distinct:
  "distinct (map fst (acc @ d)) \<Longrightarrow>
   foldl (\<lambda>al kv. AList.update (fst kv) (snd kv) al) acc d = acc @ d"
proof (induction d arbitrary: acc)
  case Nil
  show ?case by simp
next
  case (Cons kv d)
  then have "fst kv \<notin> fst ` set acc" by auto
  then have "AList.update (fst kv) (snd kv) acc = acc @ [kv]" by (simp add: update_fresh)
  moreover have "distinct (map fst ((acc @ [kv]) @ d))" using Cons.prems by simp
  ultimately show ?case using Cons.IH [of "acc @ [kv]"] by simp
qed

theorem py_eval_py_str:
  assumes "distinct (map fst d)"
  shows "py_eval (py_str d) = Some d"
proof (cases "d = []")
  case True
  then show ?thesis by (simp add: py_eval_def py_str_def)
next
  case False
  have ne: "repr_items d @ ''}'' \<noteq> ''}''" using repr_items_nonempty [OF False] by simp
  have "foldl (\<lambda>al kv. AList.update (fst kv) (snd kv) al) [] d = d"
    using foldl_update_distinct [of "[]" d] assms by simp
  with ne show ?thesis
    by (simp add: py_eval_def py_str_def parse_repr_items [OF False])
qed

subsection \<open>Store selection, the parameter record and the stages\<close>






text \<open>
  Claim C10. When \<^verbatim>\<open>download_info.txt\<close> is absent from the raw-data directory, the
  loader does not fail: it returns the default \<^verbatim>\<open>ConfigParameters()\<close> unchanged, and
  the cross-correlation stage goes on to call \<^verbatim>\<open>cross_correlate\<close> with these defaults
  (and the requested \<^verbatim>\<open>freq_norm\<close>) whenever a raw store can be created.
\<close>

theorem missing_metadata_defaults:
  assumes "\<not> isfile fs (py_join raw_dir ''download_info.txt'')"
  shows "initialize_fft_params env fs raw_dir = Inr (default_params env)
       \<and> (fs = files st \<and> raw_dir = py_join (arg_path a) ''RAW_DATA'' \<longrightarrow>
            (\<forall>rs. create_raw_store env fs raw_dir = Inr rs \<longrightarrow>
               run_cross_correlation env a st =
                 (case cross_correlate env rs
                         ((default_params env)\<lparr>cfg_freq_norm := arg_freq_norm a\<rparr>)
                         (ASDFCCStore (py_join (arg_path a) ''CCF'')) (files st) of
                    Inl x \<Rightarrow> Inl (x, enter CrossCorrelateStage st)
                  | Inr fs' \<Rightarrow> Inr ((enter CrossCorrelateStage st)\<lparr>files := fs'\<rparr>))))"
proof -
  have i: "initialize_fft_params env fs raw_dir = Inr (default_params env)"
    using assms by (simp add: initialize_fft_params_def)
  then show ?thesis
    by (auto simp: run_cross_correlation_def Let_def enter_def split: sum.splits)
qed

theorem missing_metadata_defaults_witness:
  "\<not> isfile raw_only (py_join ''/data/RAW_DATA'' ''download_info.txt'')
   \<and> initialize_fft_params demo_env raw_only ''/data/RAW_DATA'' = Inr (default_params demo_env)
   \<and> run_cross_correlation demo_env demo_args (fresh_state\<lparr>files := raw_only\<rparr>)
       = Inr (fresh_state\<lparr>files := raw_only, stage_log := [CrossCorrelateStage]\<rparr>)"
proof -
  have h: "\<not> isfile raw_only (py_join ''/data/RAW_DATA'' ''download_info.txt'')"
    by code_simp
  have f: "raw_only = files (fresh_state\<lparr>files := raw_only\<rparr>)" by simp
  have r: "''/data/RAW_DATA'' = py_join (arg_path demo_args) ''RAW_DATA''" by code_simp
  have s: "create_raw_store demo_env raw_only ''/data/RAW_DATA'' = Inr (ASDFRawDataStore ''/data/RAW_DATA'')"
    by code_simp
  have cc: "cross_correlate demo_env = (\<lambda>rawstore params ccstore fs. Inr fs)"
    by (simp add: demo_env_def)
  from missing_metadata_defaults [OF h, of demo_env "fresh_state\<lparr>files := raw_only\<rparr>" demo_args]
    f r s
  have "initialize_fft_params demo_env raw_only ''/data/RAW_DATA'' = Inr (default_params demo_env)"
    and "run_cross_correlation demo_env demo_args (fresh_state\<lparr>files := raw_only\<rparr>) =
                 (case cross_correlate demo_env (ASDFRawDataStore ''/data/RAW_DATA'')
                         ((default_params demo_env)\<lparr>cfg_freq_norm := arg_freq_norm demo_args\<rparr>)
                         (ASDFCCStore (py_join (arg_path demo_args) ''CCF''))
                         (files (fresh_state\<lparr>files := raw_only\<rparr>)) of
                    Inl x \<Rightarrow> Inl (x, enter CrossCorrelateStage (fresh_state\<lparr>files := raw_only\<rparr>))
                  | Inr fs' \<Rightarrow> Inr ((enter CrossCorrelateStage (fresh_state\<lparr>files := raw_only\<rparr>))\<lparr>files := fs'\<rparr>))"
    by simp_all
  then show ?thesis
    using h by (simp add: cc enter_def fresh_state_def)
qed

lemma download_chunk_stage_log:
  "download_chunk c direc ncomp roster c1 c2 st = Inl (x, st') \<Longrightarrow> stage_log st' = stage_log st"
  "download_chunk c direc ncomp roster c1 c2 st = Inr st' \<Longrightarrow> stage_log st' = stage_log st"
  by (auto simp: download_chunk_def Let_def split: option.splits stored_file.splits sum.splits)

lemma chunk_loop_stage_log:
  "chunk_loop c direc ncomp roster all_chunk icks st = Inl (x, st') \<Longrightarrow> stage_log st' = stage_log st"
  "chunk_loop c direc ncomp roster all_chunk icks st = Inr st' \<Longrightarrow> stage_log st' = stage_log st"
proof (induction icks arbitrary: st)
  case Nil
  { case 1 then show ?case by simp }
  { case 2 then show ?case by simp }
next
  case (Cons ick icks)
  { case 1
    then show ?case
      using Cons(1) download_chunk_stage_log
      by (fastforce split: if_splits sum.splits) }
  { case 2
    then show ?case
      using Cons(2) download_chunk_stage_log
      by (fastforce split: if_splits sum.splits) }
qed

lemma download_plan_stage_log:
  "download_plan c p rootpath chan_list sta_list start_date end_date inc_hours st = Inl (x, st')
     \<Longrightarrow> stage_log st' = stage_log st"
  "download_plan c p rootpath chan_list sta_list start_date end_date inc_hours st = Inr (pl, st')
     \<Longrightarrow> stage_log st' = stage_log st"
  by (auto simp: download_plan_def Let_def
      split: option.splits stored_file.splits sum.splits if_splits prod.splits)


lemma download_rank0:
  "\<exists>x st'. download c p 0 nproc rootpath chan_list sta_list start_date end_date inc_hours st
             = Inl (x, st') \<and> stage_log st' = stage_log st"
proof (cases "download_plan c p rootpath chan_list sta_list start_date end_date inc_hours st")
  case (Inl e)
  then obtain x st' where e: "e = (x, st')" by (cases e)
  with Inl download_plan_stage_log(1) [of c p rootpath chan_list sta_list start_date end_date
      inc_hours st x st']
  show ?thesis by (simp add: download_def)
next
  case (Inr r)
  then obtain pl st1 where r: "r = (pl, st1)" by (cases r)
  have s1: "stage_log st1 = stage_log st"
    using Inr r download_plan_stage_log(2) by blast
  let ?direc = "py_join rootpath ''RAW_DATA''"
  let ?st2 = "st1\<lparr>files := write_file (py_join ?direc ''download_info.txt'')
                  (Text (py_str (para_of pl)))
                  (if \<not> down_list p
                   then write_file (py_join ?direc ''station.txt'')
                          (Text (to_csv c (roster_of pl))) (files st1)
                   else files st1),
                tags_var := None\<rparr>"
  have s2: "stage_log ?st2 = stage_log st" using s1 by simp
  show ?thesis
  proof (cases "get_event_list (starttime_of pl) (endtime_of pl) (inc_hours * 3600)")
    case (Inl e)
    with Inr r s2 show ?thesis by (simp add: download_def Let_def)
  next
    case (Inr bounds)
    note b = Inr
    show ?thesis
    proof (cases "worker_chunks 0 nproc (map (chunk_str c) bounds)")
      case (Inl e)
      with \<open>download_plan c p rootpath chan_list sta_list start_date end_date inc_hours st = Inr r\<close>
        r b s2 show ?thesis by (simp add: download_def Let_def)
    next
      case (Inr icks)
      note w = Inr
      show ?thesis
      proof (cases "chunk_loop c ?direc (int (length chan_list)) (roster_of pl)
                      (map (chunk_str c) bounds) icks ?st2")
        case (Inl e)
        then obtain x st' where e: "e = (x, st')" by (cases e)
        with Inl chunk_loop_stage_log(1) have "stage_log st' = stage_log ?st2" by blast
        with \<open>download_plan c p rootpath chan_list sta_list start_date end_date inc_hours st = Inr r\<close>
          r b w Inl e s2 show ?thesis by (simp add: download_def Let_def)
      next
        case (Inr st3)
        with chunk_loop_stage_log(2) have "stage_log st3 = stage_log ?st2" by blast
        with \<open>download_plan c p rootpath chan_list sta_list start_date end_date inc_hours st = Inr r\<close>
          r b w Inr s2 show ?thesis by (simp add: download_def Let_def)
      qed
    qed
  qed
qed

lemma main_all_rank0:
  assumes "arg_step a = ALL'"
  shows "\<exists>x st'. main c env p 0 nproc a st = Inl (x, st')
            \<and> stage_log st' = stage_log st @ [DownloadStage]"
proof -
  from download_rank0 [of c p nproc "arg_path a" "arg_channels a" "arg_stations a"
      "[arg_start a]" "[arg_end a]" "arg_inc_hours a" "enter DownloadStage st"]
  obtain x st' where "run_download c p 0 nproc a st = Inl (x, st')"
    "stage_log st' = stage_log st @ [DownloadStage]"
    by (auto simp: run_download_def enter_def)
  with assms show ?thesis by (simp add: main_def and_then_def)
qed

text \<open>
  Claim C3 fails on the code. \<^verbatim>\<open>download\<close> never returns on the worker of rank 0:
  after the barrier it calls \<^verbatim>\<open>sys.exit()\<close>, and every earlier way out is an exception.
  So with the step \<^verbatim>\<open>all\<close> the process of rank 0 (the only process of a plain command
  line run) ends inside the download stage, whatever the inputs, and neither the
  cross-correlation stage nor the stacking stage is entered. The second part runs the
  example: a successful download, then \<^verbatim>\<open>SystemExit\<close> with only the download stage
  entered.
\<close>

theorem all_stops_after_download:
  "(\<exists>x st'. main c env p 0 nproc (a\<lparr>arg_step := ALL'\<rparr>) st = Inl (x, st')
        \<and> stage_log st' = stage_log st @ [DownloadStage])
   \<and> map_sum (\<lambda>(x, st'). (x, stage_log st')) stage_log
        (main (demo_client [] []) demo_env script_parameters 0 1 demo_args fresh_state)
       = Inl (SystemExit, [DownloadStage])"
proof
  show "\<exists>x st'. main c env p 0 nproc (a\<lparr>arg_step := ALL'\<rparr>) st = Inl (x, st')
        \<and> stage_log st' = stage_log st @ [DownloadStage]"
    by (rule main_all_rank0) simp
  show "map_sum (\<lambda>(x, st'). (x, stage_log st')) stage_log
        (main (demo_client [] []) demo_env script_parameters 0 1 demo_args fresh_state)
       = Inl (SystemExit, [DownloadStage])"
    by code_simp
qed

subsection \<open>The parameter record from download to cross-correlation\<close>

lemma py_join_last: "b \<noteq> [] \<Longrightarrow> last (py_join a b) = last b"
  by (auto simp: py_join_def)

lemma metadata_not_chunk_file:
  "py_join direc ''download_info.txt'' \<noteq> chunk_file direc' c1 c2"
proof
  assume "py_join direc ''download_info.txt'' = chunk_file direc' c1 c2"
  then have "last (py_join direc ''download_info.txt'') = last (chunk_file direc' c1 c2)" by simp
  then show False by (simp add: py_join_last chunk_file_def)
qed

lemma download_chunk_other_files:
  assumes "path \<noteq> chunk_file direc c1 c2"
  shows "download_chunk c direc ncomp roster c1 c2 st = Inl (x, st')
           \<Longrightarrow> map_of (files st') path = map_of (files st) path"
    and "download_chunk c direc ncomp roster c1 c2 st = Inr st'
           \<Longrightarrow> map_of (files st') path = map_of (files st) path"
  using assms
  by (auto simp: download_chunk_def Let_def write_file_def update_conv'
      split: option.splits stored_file.splits sum.splits)

lemma chunk_loop_other_files:
  assumes "\<And>c1 c2. path \<noteq> chunk_file direc c1 c2"
  shows "chunk_loop c direc ncomp roster all_chunk icks st = Inl (x, st')
           \<Longrightarrow> map_of (files st') path = map_of (files st) path"
    and "chunk_loop c direc ncomp roster all_chunk icks st = Inr st'
           \<Longrightarrow> map_of (files st') path = map_of (files st) path"
proof (induction icks arbitrary: st)
  case Nil
  { case 1 then show ?case by simp }
  { case 2 then show ?case by simp }
next
  case (Cons ick icks)
  { case 1
    then show ?case
      using Cons(1) download_chunk_other_files [OF assms]
      by (fastforce split: if_splits sum.splits) }
  { case 2
    then show ?case
      using Cons(2) download_chunk_other_files [OF assms]
      by (fastforce split: if_splits sum.splits) }
qed


lemma plan_para:
  assumes "download_plan c p rootpath chan_list sta_list start_date end_date inc_hours st
             = Inr (pl, st1)"
  shows "\<exists>base. base = prepro_para p (py_join rootpath ''resp'') (utc_str c (starttime_of pl))
                          (utc_str c (endtime_of pl)) inc_hours (int (length chan_list))
           \<and> (para_of pl = base \<or> (\<exists>n. para_of pl = AList.update ''nsta'' (PyInt n) base))"
  using assms
  by (auto simp: download_plan_def Let_def
      split: option.splits stored_file.splits sum.splits if_splits prod.splits)

lemma prepro_para_keys:
  "map fst (prepro_para p respdir sd ed inc ncomp) =
     [''rm_resp'', ''respdir'', ''freqmin'', ''freqmax'', ''samp_freq'', ''start_date'',
      ''end_date'', ''inc_hours'', ''cc_len'', ''step'', ''MAX_MEM'', ''lamin'', ''lamax'',
      ''lomin'', ''lomax'', ''ncomp'']"
  by (simp add: prepro_para_def)

lemma prepro_para_distinct: "distinct (map fst (prepro_para p respdir sd ed inc ncomp))"
  unfolding prepro_para_keys by simp

lemma prepro_para_lookup:
  "map_of (prepro_para p respdir sd ed inc ncomp) ''samp_freq'' = Some (PyInt (samp_freq p))"
  "map_of (prepro_para p respdir sd ed inc ncomp) ''freqmin'' = Some (freqmin p)"
  "map_of (prepro_para p respdir sd ed inc ncomp) ''freqmax'' = Some (freqmax p)"
  "map_of (prepro_para p respdir sd ed inc ncomp) ''start_date'' = Some (PyStr sd)"
  "map_of (prepro_para p respdir sd ed inc ncomp) ''end_date'' = Some (PyStr ed)"
  "map_of (prepro_para p respdir sd ed inc ncomp) ''inc_hours'' = Some (PyInt inc)"
  "map_of (prepro_para p respdir sd ed inc ncomp) ''ncomp'' = Some (PyInt ncomp)"
  by (simp_all add: prepro_para_def)

lemma loader_reads_record:
  assumes f: "map_of fs (py_join raw_dir ''download_info.txt'') = Some (Text (py_str para))"
    and d: "distinct (map fst para)"
    and v: "map_of para ''samp_freq'' = Some v1" "map_of para ''freqmin'' = Some v2"
      "map_of para ''freqmax'' = Some v3" "map_of para ''start_date'' = Some v4"
      "map_of para ''end_date'' = Some v5" "map_of para ''inc_hours'' = Some v6"
      "map_of para ''ncomp'' = Some v7"
  shows "initialize_fft_params env fs raw_dir
           = Inr ((default_params env)\<lparr>cfg_samp_freq := v1, cfg_freqmin := v2, cfg_freqmax := v3,
                     cfg_start_date := v4, cfg_end_date := v5,
                     cfg_inc_hours := v6, cfg_ncomp := v7\<rparr>)"
  using f v
  by (simp add: initialize_fft_params_def isfile_def py_eval_py_str [OF d] getitem_def)

lemma download_rank0_metadata:
  assumes pl: "download_plan c p rootpath chan_list sta_list start_date end_date inc_hours st
             = Inr (pl, st1)"
    and run: "download c p 0 nproc rootpath chan_list sta_list start_date end_date inc_hours st
             = Inl (x, st')"
  shows "map_of (files st') (py_join (py_join rootpath ''RAW_DATA'') ''download_info.txt'')
           = Some (Text (py_str (para_of pl)))"
proof -
  let ?direc = "py_join rootpath ''RAW_DATA''"
  let ?meta = "py_join ?direc ''download_info.txt''"
  let ?st2 = "st1\<lparr>files := write_file ?meta (Text (py_str (para_of pl)))
                  (if \<not> down_list p
                   then write_file (py_join ?direc ''station.txt'')
                          (Text (to_csv c (roster_of pl))) (files st1)
                   else files st1),
                tags_var := None\<rparr>"
  have m2: "map_of (files ?st2) ?meta = Some (Text (py_str (para_of pl)))"
    by (simp add: write_file_def update_conv')
  have other: "\<And>c1 c2. ?meta \<noteq> chunk_file ?direc c1 c2" by (rule metadata_not_chunk_file)
  show ?thesis
  proof (cases "get_event_list (starttime_of pl) (endtime_of pl) (inc_hours * 3600)")
    case (Inl e)
    with pl run m2 show ?thesis by (auto simp: download_def Let_def)
  next
    case (Inr bounds)
    note b = Inr
    show ?thesis
    proof (cases "worker_chunks 0 nproc (map (chunk_str c) bounds)")
      case (Inl e)
      with pl run b m2 show ?thesis by (auto simp: download_def Let_def)
    next
      case (Inr icks)
      note w = Inr
      show ?thesis
      proof (cases "chunk_loop c ?direc (int (length chan_list)) (roster_of pl)
                      (map (chunk_str c) bounds) icks ?st2")
        case (Inl e)
        with pl run b w have "e = (x, st')" by (simp add: download_def Let_def)
        with Inl chunk_loop_other_files(1) [OF other] m2 show ?thesis by metis
      next
        case (Inr st3)
        with pl run b w have "st' = st3" by (simp add: download_def Let_def)
        with Inr chunk_loop_other_files(2) [OF other] m2 show ?thesis by metis
      qed
    qed
  qed
qed

text \<open>
  Claim C8. When the download stage gets past its planning (dates, roster and memory
  check) on the worker of rank 0, then however the run ends, the loader of the
  cross-correlation stage reads from the files it leaves the values the download stage
  wrote: \<^verbatim>\<open>samp_freq\<close>, \<^verbatim>\<open>freqmin\<close>, \<^verbatim>\<open>freqmax\<close>, the start and end dates as
  \<^verbatim>\<open>str\<close> printed them, \<^verbatim>\<open>inc_hours\<close> and \<^verbatim>\<open>ncomp\<close>, the other attributes being
  the defaults.
\<close>

theorem metadata_round_trip:
  assumes pl: "download_plan c p rootpath chan_list sta_list start_date end_date inc_hours st
             = Inr (pl, st1)"
    and run: "download c p 0 nproc rootpath chan_list sta_list start_date end_date inc_hours st
             = Inl (x, st')"
  shows "initialize_fft_params env (files st') (py_join rootpath ''RAW_DATA'')
           = Inr ((default_params env)
                    \<lparr>cfg_samp_freq := PyInt (samp_freq p),
                     cfg_freqmin := freqmin p,
                     cfg_freqmax := freqmax p,
                     cfg_start_date := PyStr (utc_str c (starttime_of pl)),
                     cfg_end_date := PyStr (utc_str c (endtime_of pl)),
                     cfg_inc_hours := PyInt inc_hours,
                     cfg_ncomp := PyInt (int (length chan_list))\<rparr>)"
proof -
  let ?base = "prepro_para p (py_join rootpath ''resp'') (utc_str c (starttime_of pl))
                 (utc_str c (endtime_of pl)) inc_hours (int (length chan_list))"
  note f = download_rank0_metadata [OF pl run]
  from plan_para [OF pl] consider (plain) "para_of pl = ?base"
    | (nsta) n where "para_of pl = AList.update ''nsta'' (PyInt n) ?base"
    by blast
  then show ?thesis
  proof cases
    case plain
    show ?thesis
      by (rule loader_reads_record [OF f]) (simp_all add: plain prepro_para_distinct prepro_para_lookup)
  next
    case nsta
    have d: "distinct (map fst (para_of pl))"
      unfolding nsta by (simp add: distinct_update prepro_para_distinct)
    show ?thesis
      by (rule loader_reads_record [OF f d])
         (simp_all add: nsta update_conv' prepro_para_lookup)
  qed
qed

theorem metadata_round_trip_witness:
  "(\<exists>pl st1. download_plan (demo_client [] []) script_parameters ''/data''
                [''BHE'', ''BHN'', ''BHZ''] [''*''] [''2016_07_01_0_0_0''] [''2016_07_02_0_0_0'']
                24 fresh_state = Inr (pl, st1))
   \<and> (\<exists>x st'. download (demo_client [] []) script_parameters 0 1 ''/data''
                [''BHE'', ''BHN'', ''BHZ''] [''*''] [''2016_07_01_0_0_0''] [''2016_07_02_0_0_0'']
                24 fresh_state = Inl (x, st')
          \<and> initialize_fft_params demo_env (files st') ''/data/RAW_DATA''
              = Inr ((default_params demo_env)
                    \<lparr>cfg_samp_freq := PyInt 20,
                     cfg_freqmin := PyFloat (Decimal False 0 D0 [D5]),
                     cfg_freqmax := PyInt 2,
                     cfg_start_date := PyStr ''2016-07-01T00:00:00.000000Z'',
                     cfg_end_date := PyStr ''2016-07-02T00:00:00.000000Z'',
                     cfg_inc_hours := PyInt 24,
                     cfg_ncomp := PyInt 3\<rparr>))"
proof -
  let ?plan = "download_plan (demo_client [] []) script_parameters ''/data''
                [''BHE'', ''BHN'', ''BHZ''] [''*''] [''2016_07_01_0_0_0''] [''2016_07_02_0_0_0'']
                24 fresh_state"
  have "map_sum fst (\<lambda>(pl, st1). (starttime_of pl, endtime_of pl)) ?plan
          = Inr (1467331200, 1467417600)"
    by code_simp
  then obtain pl st1 where pl: "?plan = Inr (pl, st1)"
    and t: "starttime_of pl = 1467331200" "endtime_of pl = 1467417600"
    by (cases ?plan) auto
  from download_rank0 [of "demo_client [] []" script_parameters 1 "''/data''"
      "[''BHE'', ''BHN'', ''BHZ'']" "[''*'']" "[''2016_07_01_0_0_0'']" "[''2016_07_02_0_0_0'']"
      24 fresh_state]
  obtain x st' where run: "download (demo_client [] []) script_parameters 0 1 ''/data''
                [''BHE'', ''BHN'', ''BHZ''] [''*''] [''2016_07_01_0_0_0''] [''2016_07_02_0_0_0'']
                24 fresh_state = Inl (x, st')"
    by blast
  have j: "py_join ''/data'' ''RAW_DATA'' = ''/data/RAW_DATA''" by code_simp
  from metadata_round_trip [OF pl run, of demo_env] 
  have "initialize_fft_params demo_env (files st') ''/data/RAW_DATA''
              = Inr ((default_params demo_env)
                    \<lparr>cfg_samp_freq := PyInt 20,
                     cfg_freqmin := PyFloat (Decimal False 0 D0 [D5]),
                     cfg_freqmax := PyInt 2,
                     cfg_start_date := PyStr ''2016-07-01T00:00:00.000000Z'',
                     cfg_end_date := PyStr ''2016-07-02T00:00:00.000000Z'',
                     cfg_inc_hours := PyInt 24,
                     cfg_ncomp := PyInt 3\<rparr>)"
    by (simp add: j t script_parameters_def demo_client_def)
  with pl run show ?thesis by blast
qed

end
